theory Spec2Isabelle
  imports Complex_Main "HOL-Library.Word"
begin

section \<open>Strings and buffers\<close>

text \<open>
  The security module of astro-build-time-constants (the one the tests import as
  \<^verbatim>\<open>../src/security\<close>, with the types of \<^verbatim>\<open>./types\<close>) is embedded function by function.
  JavaScript strings are modelled as \<^typ>\<open>string\<close> (ASCII; \<^verbatim>\<open>toLowerCase\<close> maps \<^verbatim>\<open>A\<close> to \<^verbatim>\<open>Z\<close>),
  a \<^verbatim>\<open>Buffer\<close> as a list of bytes, a finite \<^verbatim>\<open>number\<close> as the real it denotes (sums and
  differences are rounded to double precision; NaN and the infinities are left out), a
  valid \<^verbatim>\<open>Date\<close> as its time value in milliseconds, \<^verbatim>\<open>undefined\<close> as \<^const>\<open>None\<close>, and a
  \<^verbatim>\<open>throw\<close> as a result on the left of a sum.
\<close>

type_synonym buffer = "8 word list"

definition toLowerCase_char :: "char \<Rightarrow> char" where
  "toLowerCase_char c =
     (let n = (of_char c :: nat) in if 65 \<le> n \<and> n \<le> 90 then char_of (n + 32) else c)"

definition toLowerCase :: "string \<Rightarrow> string" where
  "toLowerCase s = map toLowerCase_char s"

fun startsWith :: "string \<Rightarrow> string \<Rightarrow> bool" where
  "startsWith s [] = True"
| "startsWith [] (b # bs) = False"
| "startsWith (a # as) (b # bs) = (a = b \<and> startsWith as bs)"

text \<open>\<^verbatim>\<open>s.includes(sub)\<close>: \<open>sub\<close> occurs in \<open>s\<close> as a contiguous substring.\<close>

fun str_includes :: "string \<Rightarrow> string \<Rightarrow> bool" where
  "str_includes [] sub = (sub = [])"
| "str_includes (c # cs) sub = (startsWith (c # cs) sub \<or> str_includes cs sub)"

text \<open>\<^verbatim>\<open>s.split(sep)\<close> for a one-character separator; the result is never empty.\<close>

primrec str_split :: "char \<Rightarrow> string \<Rightarrow> string list" where
  "str_split sep [] = [[]]"
| "str_split sep (c # cs) =
     (if c = sep then [] # str_split sep cs
      else (case str_split sep cs of [] \<Rightarrow> [[c]] | s # ss \<Rightarrow> (c # s) # ss))"

definition digit_char :: "nat \<Rightarrow> char" where
  "digit_char d = char_of (48 + d)"

text \<open>The decimal rendering of an array index inside a template literal.\<close>

fun index_to_string :: "nat \<Rightarrow> string" where
  "index_to_string n =
     (if n < 10 then [digit_char n] else index_to_string (n div 10) @ [digit_char (n mod 10)])"

declare index_to_string.simps [simp del]

text \<open>\<^verbatim>\<open>buffer.toString('utf8')\<close> on bytes, read as a byte string.\<close>

definition buffer_toString :: "buffer \<Rightarrow> string" where
  "buffer_toString b = map (\<lambda>w. char_of (unat w)) b"

subsection \<open>Node's base64 decoder\<close>

text \<open>
  \<^verbatim>\<open>Buffer.from(s, 'base64')\<close> never throws: it stops at the first \<^verbatim>\<open>=\<close>, skips every
  character outside the alphabet (both the standard and the URL-safe alphabet are read),
  and turns each group of four sextets into three bytes; a final group of three sextets
  gives two bytes and one of two sextets gives one byte, the unused low bits of the last
  sextet being dropped; a single leftover sextet gives nothing.
\<close>

definition unbase64 :: "char \<Rightarrow> nat option" where
  "unbase64 c =
     (let n = (of_char c :: nat) in
      if 65 \<le> n \<and> n \<le> 90 then Some (n - 65)
      else if 97 \<le> n \<and> n \<le> 122 then Some (n - 71)
      else if 48 \<le> n \<and> n \<le> 57 then Some (n + 4)
      else if n = 43 \<or> n = 45 then Some 62
      else if n = 47 \<or> n = 95 then Some 63
      else None)"

fun decode_groups :: "nat list \<Rightarrow> buffer" where
  "decode_groups (a # b # c # d # rest) =
     word_of_nat (a * 4 + b div 16) # word_of_nat ((b mod 16) * 16 + c div 4)
       # word_of_nat ((c mod 4) * 64 + d) # decode_groups rest"
| "decode_groups [a, b, c] =
     [word_of_nat (a * 4 + b div 16), word_of_nat ((b mod 16) * 16 + c div 4)]"
| "decode_groups [a, b] = [word_of_nat (a * 4 + b div 16)]"
| "decode_groups [a] = []"
| "decode_groups [] = []"

definition Buffer_from_base64 :: "string \<Rightarrow> buffer" where
  "Buffer_from_base64 s =
     decode_groups (List.map_filter unbase64 (takeWhile (\<lambda>c. c \<noteq> CHR ''='') s))"

text \<open>
  \<^verbatim>\<open>base64UrlDecode\<close>: replace \<^verbatim>\<open>-\<close> by \<^verbatim>\<open>+\<close> and \<^verbatim>\<open>_\<close> by \<^verbatim>\<open>/\<close>, pad with \<^verbatim>\<open>=\<close> to a
  multiple of four characters, decode.
\<close>

definition replace_char :: "char \<Rightarrow> char \<Rightarrow> string \<Rightarrow> string" where
  "replace_char a b s = map (\<lambda>c. if c = a then b else c) s"

definition padEnd :: "string \<Rightarrow> nat \<Rightarrow> char \<Rightarrow> string" where
  "padEnd s n c = s @ replicate (n - length s) c"

definition base64UrlDecode :: "string \<Rightarrow> buffer" where
  "base64UrlDecode v =
     (let normalized = replace_char (CHR ''_'') (CHR ''/'') (replace_char (CHR ''-'') (CHR ''+'') v);
          padded = padEnd normalized (length normalized + (4 - length normalized mod 4) mod 4) (CHR ''='')
      in Buffer_from_base64 padded)"

section \<open>Parsed JSON values, options and errors\<close>

datatype json =
    JNull
  | JBool bool
  | JNum real
  | JStr string
  | JArr "json list"
  | JObj "(string \<times> json) list"

text \<open>
  Reading a property of a parsed value that is not \<^verbatim>\<open>null\<close>: an object gives the value
  stored under the key, anything else gives \<^verbatim>\<open>undefined\<close> for the claim names read
  here. Reading a property of \<^verbatim>\<open>null\<close> throws; the callers test for \<^const>\<open>JNull\<close> first.
\<close>

fun get_prop :: "json \<Rightarrow> string \<Rightarrow> json option" where
  "get_prop (JObj kvs) k = map_of kvs k"
| "get_prop v k = None"

fun truthy :: "json option \<Rightarrow> bool" where
  "truthy None = False"
| "truthy (Some JNull) = False"
| "truthy (Some (JBool b)) = b"
| "truthy (Some (JNum x)) = (x \<noteq> 0)"
| "truthy (Some (JStr s)) = (s \<noteq> [])"
| "truthy (Some (JArr xs)) = True"
| "truthy (Some (JObj kvs)) = True"

text \<open>A string option is falsy when it is \<^verbatim>\<open>undefined\<close> or the empty string.\<close>

fun truthy_string :: "string option \<Rightarrow> bool" where
  "truthy_string None = False"
| "truthy_string (Some s) = (s \<noteq> [])"

text \<open>
  What \<^verbatim>\<open>process.env[name]\<close> gives: \<^verbatim>\<open>undefined\<close>, the string of a variable, or, for a name
  that \<^verbatim>\<open>Object.prototype\<close> defines and no variable overrides (\<^verbatim>\<open>constructor\<close>, \<^verbatim>\<open>toString\<close>,
  ...), the inherited function or object, which is truthy and is not a string.
\<close>

datatype env_value = EnvUndefined | EnvString string | EnvInherited

fun truthy_env :: "env_value \<Rightarrow> bool" where
  "truthy_env EnvUndefined = False"
| "truthy_env (EnvString s) = (s \<noteq> [])"
| "truthy_env EnvInherited = True"

datatype audience = AudString string | AudArray "string list"

record JwtSecurityOptions =
  token :: "string option"
  tokenEnvName :: "string option"
  secret :: "string option"
  secretEnvName :: "string option"
  issuer :: "string option"
  subject :: "string option"
  audience :: "audience option"
  required :: "bool option"
  algorithms :: "string list option"
  clockToleranceSeconds :: "real option"

datatype SecretValidationMode = Warn | Error

record SecretValidationOptions =
  blocklist :: "string list option"
  allowList :: "string list option"
  mode :: "SecretValidationMode option"

record SecurityOptions =
  jwt :: "JwtSecurityOptions option"
  secrets :: "SecretValidationOptions option"

record SecretScanOptions =
  scan_blocklist :: "string list"
  scan_allowList :: "string list"
  scan_mode :: SecretValidationMode

record ResolvedJwtInputs =
  resolved_token :: env_value
  resolved_secret :: env_value
  resolved_tokenEnvName :: string
  resolved_secretEnvName :: string

text \<open>The options object \<^verbatim>\<open>{}\<close>.\<close>

definition empty_jwt_options :: JwtSecurityOptions where
  "empty_jwt_options =
     \<lparr>token = None, tokenEnvName = None, secret = None, secretEnvName = None,
      issuer = None, subject = None, audience = None, required = None,
      algorithms = None, clockToleranceSeconds = None\<rparr>"

definition empty_security_options :: SecurityOptions where
  "empty_security_options = \<lparr>jwt = None, secrets = None\<rparr>"

text \<open>
  What the module takes from Node: the process environment, the keyed hash
  \<^verbatim>\<open>crypto.createHmac(hash, key).update(data).digest()\<close>, \<^verbatim>\<open>JSON.parse\<close> (the message of
  its SyntaxError on the left) and the string conversion of a number, an array or an
  object inside a template literal.
\<close>

record node_runtime =
  process_env :: "string \<Rightarrow> env_value"
  createHmac :: "string \<Rightarrow> string \<Rightarrow> string \<Rightarrow> buffer"
  JSON_parse :: "string \<Rightarrow> string + json"
  toString_of :: "json \<Rightarrow> string"

text \<open>Every \<^verbatim>\<open>throw\<close> of the module, with the data its message is built from.\<close>

datatype error =
    MissingToken string
  | MissingSecret string
  | UnsupportedAlgorithm string
  | InvalidFormat
  | UnableToParse string string
  | TypeError string
  | AlgorithmNotAllowed string
  | SignatureVerificationFailed
  | TokenExpired
  | TokenNotValidYet
  | IssuedInFuture
  | IssuerMismatch
  | SubjectMismatch
  | AudienceMismatch
  | UnsupportedValue string
  | BlockedKeyword string string
  | UnsafePropertyName string

definition dq :: string where
  "dq = [char_of (34 :: nat)]"

definition blocked_message :: "string \<Rightarrow> string \<Rightarrow> string" where
  "blocked_message path blocked =
     ''Config property '' @ dq @ path @ dq @ '' matched blocked keyword '' @ dq @ blocked @ dq
       @ ''. If this property intentionally carries a secret, list it under security.secrets.allowList.''"

fun error_message :: "error \<Rightarrow> string" where
  "error_message (MissingToken envName) =
     ''JWT token is required. Provide security.jwt.token or set the '' @ envName
       @ '' environment variable.''"
| "error_message (MissingSecret envName) =
     ''JWT secret is required. Provide security.jwt.secret or set the '' @ envName
       @ '' environment variable.''"
| "error_message (UnsupportedAlgorithm alg) =
     ''Unsupported JWT algorithm '' @ dq @ alg @ dq
       @ ''. Supported algorithms: HS256, HS384, HS512''"
| "error_message InvalidFormat = ''Invalid JWT format. Expected header.payload.signature''"
| "error_message (UnableToParse segmentName msg) =
     ''Unable to parse JWT '' @ segmentName @ ''. '' @ msg"
| "error_message (TypeError msg) = msg"
| "error_message (AlgorithmNotAllowed alg) =
     ''JWT algorithm '' @ dq @ alg @ dq @ '' is not allowed.''"
| "error_message SignatureVerificationFailed = ''JWT signature verification failed''"
| "error_message TokenExpired = ''JWT token has expired.''"
| "error_message TokenNotValidYet = ''JWT token is not valid yet (nbf check failed).''"
| "error_message IssuedInFuture = ''JWT token issued-at (iat) claim is in the future.''"
| "error_message IssuerMismatch = ''JWT issuer claim mismatch.''"
| "error_message SubjectMismatch = ''JWT subject claim mismatch.''"
| "error_message AudienceMismatch = ''JWT audience claim mismatch.''"
| "error_message (UnsupportedValue path) =
     ''Unsupported value at '' @ dq @ path @ dq
       @ ''. Only JSON-serializable values are allowed in buildTimeConstants configuration.''"
| "error_message (BlockedKeyword path blocked) = blocked_message path blocked"
| "error_message (UnsafePropertyName target) =
     ''Unsafe configuration property name '' @ dq @ target @ dq
       @ '' is blocked to prevent prototype pollution.''"

section \<open>The token verifier\<close>

definition JWT_TOKEN_ENV :: string where
  "JWT_TOKEN_ENV = ''ASTRO_BUILD_TIME_TOKEN''"

definition JWT_SECRET_ENV :: string where
  "JWT_SECRET_ENV = ''ASTRO_BUILD_TIME_SECRET''"

text \<open>
  The table of hash names; an algorithm name is a string, and the names the type
  \<^verbatim>\<open>SupportedJwtAlgorithm\<close> admits are the keys of the table.
\<close>

definition HASH_ALGORITHM_BY_JWT_ALG :: "string \<Rightarrow> string option" where
  "HASH_ALGORITHM_BY_JWT_ALG =
     map_of [(''HS256'', ''sha256''), (''HS384'', ''sha384''), (''HS512'', ''sha512'')]"

text \<open>
  \<^verbatim>\<open>resolveJwtInputs\<close>: \<^verbatim>\<open>??\<close> falls back only on \<^verbatim>\<open>undefined\<close>, so an explicit empty
  string is kept; an empty variable name reads nothing from the environment.
\<close>

definition resolveJwtInputs :: "node_runtime \<Rightarrow> JwtSecurityOptions \<Rightarrow> ResolvedJwtInputs" where
  "resolveJwtInputs rt jwtOptions =
     (let tEnv = (case tokenEnvName jwtOptions of None \<Rightarrow> JWT_TOKEN_ENV | Some n \<Rightarrow> n);
          sEnv = (case secretEnvName jwtOptions of None \<Rightarrow> JWT_SECRET_ENV | Some n \<Rightarrow> n);
          tok = (case token jwtOptions of
                   Some t \<Rightarrow> EnvString t
                 | None \<Rightarrow> if tEnv \<noteq> [] then process_env rt tEnv else EnvUndefined);
          sec = (case secret jwtOptions of
                   Some s \<Rightarrow> EnvString s
                 | None \<Rightarrow> if sEnv \<noteq> [] then process_env rt sEnv else EnvUndefined)
      in \<lparr>resolved_token = tok, resolved_secret = sec,
          resolved_tokenEnvName = tEnv, resolved_secretEnvName = sEnv\<rparr>)"

definition parseJwtSegment :: "node_runtime \<Rightarrow> string \<Rightarrow> string \<Rightarrow> error + json" where
  "parseJwtSegment rt segment segmentName =
     (case JSON_parse rt (buffer_toString (base64UrlDecode segment)) of
        Inl msg \<Rightarrow> Inl (UnableToParse segmentName msg)
      | Inr v \<Rightarrow> Inr v)"

text \<open>
  \<^verbatim>\<open>createHmacSignature\<close>; \<^verbatim>\<open>crypto.createHmac\<close> throws a TypeError when the table has no
  hash for the algorithm, and when the key is not a string (a secret inherited from
  \<^verbatim>\<open>Object.prototype\<close>).
\<close>

definition createHmacSignature ::
  "node_runtime \<Rightarrow> string \<Rightarrow> env_value \<Rightarrow> string \<Rightarrow> error + buffer" where
  "createHmacSignature rt signingInput sec alg =
     (case HASH_ALGORITHM_BY_JWT_ALG alg of
        None \<Rightarrow> Inl (TypeError ''The hmac argument must be of type string.'')
      | Some hashAlgorithm \<Rightarrow>
          (case sec of
             EnvString key \<Rightarrow> Inr (createHmac rt hashAlgorithm key signingInput)
           | _ \<Rightarrow> Inl (TypeError ''The key argument must be of type string.'')))"

text \<open>
  \<^verbatim>\<open>crypto.timingSafeEqual\<close> on two buffers of the same length (the caller compares the
  lengths first): byte-wise equality.
\<close>

definition timingSafeEqual :: "buffer \<Rightarrow> buffer \<Rightarrow> bool" where
  "timingSafeEqual a b = (a = b)"

text \<open>\<^verbatim>\<open>typeof payload.name === 'number'\<close>, giving the number.\<close>

definition number_claim :: "json \<Rightarrow> string \<Rightarrow> real option" where
  "number_claim payload name = (case get_prop payload name of Some (JNum x) \<Rightarrow> Some x | _ \<Rightarrow> None)"

fun audience_truthy :: "audience \<Rightarrow> bool" where
  "audience_truthy (AudString s) = (s \<noteq> [])"
| "audience_truthy (AudArray xs) = True"

fun expected_audience :: "audience \<Rightarrow> string list" where
  "expected_audience (AudArray xs) = xs"
| "expected_audience (AudString s) = [s]"

definition payload_audience :: "json \<Rightarrow> json list" where
  "payload_audience payload =
     (if truthy (get_prop payload ''aud'')
      then (case get_prop payload ''aud'' of Some (JArr xs) \<Rightarrow> xs | Some v \<Rightarrow> [v] | None \<Rightarrow> [])
      else [])"

definition null_read :: "string \<Rightarrow> error" where
  "null_read name = TypeError (''Cannot read properties of null (reading '' @ name @ '')'')"

subsection \<open>Double-precision sums\<close>

text \<open>
  \<^verbatim>\<open>a + b\<close> and \<^verbatim>\<open>a - b\<close> on numbers are the exact result rounded to the nearest double, ties
  to the even significand: for \<open>2^e \<le> |x| < 2^(e+1)\<close> the doubles around \<open>x\<close> are the multiples
  of \<open>2^(e-52)\<close>. \<open>binary_exponent\<close> finds \<open>e\<close> by halving or doubling. Overflow to an
  infinity is left out; a comparison with a finite time gives the same verdict.
\<close>

function exponent_up :: "real \<Rightarrow> int" where
  "exponent_up x = (if x < 2 then 0 else exponent_up (x / 2) + 1)"
  by pat_completeness auto
termination
proof (relation "measure (\<lambda>x. nat \<lfloor>x\<rfloor>)")
  show "wf (measure (\<lambda>x. nat \<lfloor>x\<rfloor>))" by simp
next
  fix x :: real
  assume "\<not> x < 2"
  then have "x / 2 \<le> x - 1" by simp
  then have "\<lfloor>x / 2\<rfloor> \<le> \<lfloor>x - 1\<rfloor>" by (rule floor_mono)
  moreover have "\<lfloor>x - 1\<rfloor> = \<lfloor>x\<rfloor> - 1" by simp
  moreover have "1 \<le> \<lfloor>x\<rfloor>" using \<open>\<not> x < 2\<close> by (simp add: le_floor_iff)
  ultimately show "(x / 2, x) \<in> measure (\<lambda>x. nat \<lfloor>x\<rfloor>)" by simp
qed

function exponent_down :: "real \<Rightarrow> int" where
  "exponent_down x = (if x \<le> 0 \<or> 1 \<le> x then 0 else exponent_down (2 * x) - 1)"
  by pat_completeness auto
termination
proof (relation "measure (\<lambda>x. nat \<lceil>1 / x\<rceil>)")
  show "wf (measure (\<lambda>x. nat \<lceil>1 / x\<rceil>))" by simp
next
  fix x :: real
  assume "\<not> (x \<le> 0 \<or> 1 \<le> x)"
  then have x: "0 < x" "x < 1" by simp_all
  define y where "y = 1 / x"
  have y: "1 < y" using x by (simp add: y_def)
  have "\<lceil>y / 2\<rceil> < \<lceil>y\<rceil>"
  proof (cases "y \<le> 2")
    case True
    then have "\<lceil>y / 2\<rceil> \<le> 1" by (simp add: ceiling_le_iff)
    moreover have "2 \<le> \<lceil>y\<rceil>" using y by (simp add: le_ceiling_iff)
    ultimately show ?thesis by linarith
  next
    case False
    then have "y / 2 + 1 < y" by simp
    moreover have "of_int \<lceil>y / 2\<rceil> < y / 2 + 1" by linarith
    moreover have "y \<le> of_int \<lceil>y\<rceil>" by simp
    ultimately have "(of_int \<lceil>y / 2\<rceil> :: real) < of_int \<lceil>y\<rceil>" by linarith
    then show ?thesis by simp
  qed
  moreover have "\<lceil>1 / (2 * x)\<rceil> = \<lceil>y / 2\<rceil>" by (simp add: y_def mult.commute)
  moreover have "0 < \<lceil>y\<rceil>" using y by (simp add: less_ceiling_iff)
  ultimately have "nat \<lceil>1 / (2 * x)\<rceil> < nat \<lceil>y\<rceil>" by linarith
  then show "(2 * x, x) \<in> measure (\<lambda>x. nat \<lceil>1 / x\<rceil>)"
    by (simp only: in_measure y_def)
qed

declare exponent_up.simps [simp del]
declare exponent_down.simps [simp del]

definition binary_exponent :: "real \<Rightarrow> int" where
  "binary_exponent x = (if 1 \<le> x then exponent_up x else exponent_down x)"

definition pow2 :: "int \<Rightarrow> real" where
  "pow2 q = (if 0 \<le> q then 2 ^ nat q else 1 / 2 ^ nat (- q))"

definition round_half_even :: "real \<Rightarrow> int" where
  "round_half_even y =
     (let f = \<lfloor>y\<rfloor>; d = y - of_int f
      in if d < 1 / 2 then f else if 1 / 2 < d then f + 1 else if even f then f else f + 1)"

definition to_double :: "real \<Rightarrow> real" where
  "to_double x =
     (if x = 0 then 0
      else (let q = binary_exponent \<bar>x\<bar> - 52
            in of_int (round_half_even (x / pow2 q)) * pow2 q))"

definition js_add :: "real \<Rightarrow> real \<Rightarrow> real" where
  "js_add a b = to_double (a + b)"

definition js_sub :: "real \<Rightarrow> real \<Rightarrow> real" where
  "js_sub a b = to_double (a - b)"

subsection \<open>Claims\<close>

text \<open>
  \<^verbatim>\<open>validateJwtClaims\<close>; \<open>tolerance\<close> is \<^verbatim>\<open>options.clockToleranceSeconds ?? 60\<close> and
  \<open>nowSeconds\<close> is \<^verbatim>\<open>Math.floor(now.getTime() / 1000)\<close>. The time value of a valid
  \<^verbatim>\<open>Date\<close> is an integer of magnitude at most \<open>8.64 * 10^15\<close>; the double quotient then
  lies within \<open>2^-11\<close> of the exact one, which is an integer or at least \<open>1/1000\<close> away from
  one, so the floor is that of the exact quotient. The three sums and differences with
  the tolerance are double-precision operations.
\<close>

definition validateJwtClaims :: "json \<Rightarrow> JwtSecurityOptions \<Rightarrow> int \<Rightarrow> error + unit" where
  "validateJwtClaims payload options now =
     (let tolerance = (case clockToleranceSeconds options of None \<Rightarrow> 60 | Some t \<Rightarrow> t);
          nowSeconds = real_of_int (now div 1000)
      in
      if payload = JNull then Inl (null_read ''exp'')
      else if (case number_claim payload ''exp'' of
                 Some e \<Rightarrow> nowSeconds \<ge> js_add e tolerance | None \<Rightarrow> False)
      then Inl TokenExpired
      else if (case number_claim payload ''nbf'' of
                 Some n \<Rightarrow> nowSeconds < js_sub n tolerance | None \<Rightarrow> False)
      then Inl TokenNotValidYet
      else if (case number_claim payload ''iat'' of
                 Some i \<Rightarrow> js_sub i tolerance > nowSeconds | None \<Rightarrow> False)
      then Inl IssuedInFuture
      else if truthy_string (issuer options)
                \<and> get_prop payload ''iss'' \<noteq> map_option JStr (issuer options)
      then Inl IssuerMismatch
      else if truthy_string (subject options)
                \<and> get_prop payload ''sub'' \<noteq> map_option JStr (subject options)
      then Inl SubjectMismatch
      else (case audience options of
              None \<Rightarrow> Inr ()
            | Some a \<Rightarrow>
                if audience_truthy a
                then (let hasOverlap =
                            list_ex (\<lambda>aud. JStr aud \<in> set (payload_audience payload))
                              (expected_audience a)
                      in if \<not> hasOverlap then Inl AudienceMismatch else Inr ())
                else Inr ()))"

text \<open>The text a template literal gives for \<^verbatim>\<open>header.alg\<close>.\<close>

fun template_string :: "node_runtime \<Rightarrow> json option \<Rightarrow> string" where
  "template_string rt None = ''undefined''"
| "template_string rt (Some JNull) = ''null''"
| "template_string rt (Some (JBool b)) = (if b then ''true'' else ''false'')"
| "template_string rt (Some (JStr s)) = s"
| "template_string rt (Some v) = toString_of rt v"

text \<open>
  \<^verbatim>\<open>allowedAlgorithms.includes(header.alg)\<close> can only hold for a string; \<open>string_value\<close>
  gives it.
\<close>

fun string_value :: "json option \<Rightarrow> string option" where
  "string_value (Some (JStr s)) = Some s"
| "string_value v = None"

text \<open>
  The part of \<^verbatim>\<open>verifyJwtToken\<close> that follows the split: header, algorithm, signature,
  payload and claims, in the order of the source.
\<close>

definition verifySegments ::
  "node_runtime \<Rightarrow> JwtSecurityOptions \<Rightarrow> int \<Rightarrow> env_value \<Rightarrow> string list
     \<Rightarrow> string \<Rightarrow> string \<Rightarrow> string \<Rightarrow> error + (json \<times> json)" where
  "verifySegments rt jwtOptions now sec allowedAlgorithms encodedHeader encodedPayload encodedSignature =
     (case parseJwtSegment rt encodedHeader ''header'' of
        Inl e \<Rightarrow> Inl e
      | Inr header \<Rightarrow>
          if header = JNull then Inl (null_read ''alg'')
          else
            (case string_value (get_prop header ''alg'') of
               None \<Rightarrow> Inl (AlgorithmNotAllowed (template_string rt (get_prop header ''alg'')))
             | Some alg \<Rightarrow>
                 if alg \<notin> set allowedAlgorithms then Inl (AlgorithmNotAllowed alg)
                 else
                   (let signingInput = encodedHeader @ ''.'' @ encodedPayload in
                    case createHmacSignature rt signingInput sec alg of
                      Inl e \<Rightarrow> Inl e
                    | Inr expectedSignature \<Rightarrow>
                        (let providedSignature = base64UrlDecode encodedSignature in
                         if length expectedSignature \<noteq> length providedSignature
                              \<or> \<not> timingSafeEqual expectedSignature providedSignature
                         then Inl SignatureVerificationFailed
                         else
                           (case parseJwtSegment rt encodedPayload ''payload'' of
                              Inl e \<Rightarrow> Inl e
                            | Inr payload \<Rightarrow>
                                (case validateJwtClaims payload jwtOptions now of
                                   Inl e \<Rightarrow> Inl e
                                 | Inr u \<Rightarrow> Inr (header, payload)))))))"

text \<open>\<^verbatim>\<open>jwtOptions.algorithms ?? ['HS256']\<close>\<close>

definition allowed_algorithms :: "JwtSecurityOptions \<Rightarrow> string list" where
  "allowed_algorithms jwtOptions =
     (case algorithms jwtOptions of None \<Rightarrow> [''HS256''] | Some as \<Rightarrow> as)"

text \<open>
  \<^verbatim>\<open>verifyJwtToken\<close>. A token inherited from \<^verbatim>\<open>Object.prototype\<close> passes the \<^verbatim>\<open>!token\<close>
  test and has no \<^verbatim>\<open>split\<close> method.
\<close>

definition verifyJwtToken ::
  "node_runtime \<Rightarrow> JwtSecurityOptions \<Rightarrow> int \<Rightarrow> error + (json \<times> json)" where
  "verifyJwtToken rt jwtOptions now =
     (let r = resolveJwtInputs rt jwtOptions in
      if \<not> truthy_env (resolved_token r)
      then Inl (MissingToken (resolved_tokenEnvName r))
      else if \<not> truthy_env (resolved_secret r)
      then Inl (MissingSecret (resolved_secretEnvName r))
      else
        (let allowedAlgorithms = allowed_algorithms jwtOptions in
         case List.find (\<lambda>alg. HASH_ALGORITHM_BY_JWT_ALG alg = None) allowedAlgorithms of
           Some alg \<Rightarrow> Inl (UnsupportedAlgorithm alg)
         | None \<Rightarrow>
             (case resolved_token r of
                EnvString tok \<Rightarrow>
                  (case str_split (CHR ''.'') tok of
                     [encodedHeader, encodedPayload, encodedSignature] \<Rightarrow>
                       verifySegments rt jwtOptions now (resolved_secret r) allowedAlgorithms
                         encodedHeader encodedPayload encodedSignature
                   | _ \<Rightarrow> Inl InvalidFormat)
              | _ \<Rightarrow> Inl (TypeError ''token.split is not a function''))))"

section \<open>The secret scanner\<close>

text \<open>
  A configuration value as the scanner tells values apart: an array, a plain object (its
  own enumerable entries in insertion order), or a leaf. \<open>CSerializable\<close> is an object
  that is not a plain object and has a \<^verbatim>\<open>toJSON\<close> method; \<open>COther\<close> is any other value
  (\<^verbatim>\<open>undefined\<close>, a function, a symbol, a bigint, a non-plain object without \<^verbatim>\<open>toJSON\<close>).
\<close>

datatype config =
    CNull
  | CBool bool
  | CNum real
  | CStr string
  | CDate int
  | CSerializable
  | COther
  | CArr "config list"
  | CObj "(string \<times> config) list"

definition DEFAULT_SECRET_BLOCKLIST :: "string list" where
  "DEFAULT_SECRET_BLOCKLIST =
     [''secret'', ''password'', ''token'', ''credential'', ''passphrase'', ''privatekey'', ''apikey'']"

definition PROHIBITED_PROPERTY_NAMES :: "string list" where
  "PROHIBITED_PROPERTY_NAMES = [''__proto__'', ''prototype'', ''constructor'']"

definition DEFAULT_SECRET_MODE :: SecretValidationMode where
  "DEFAULT_SECRET_MODE = Error"

text \<open>\<^verbatim>\<open>Array.from(new Set(xs))\<close>: the first occurrence of each entry, in order.\<close>

definition array_from_set :: "string list \<Rightarrow> string list" where
  "array_from_set xs = foldl (\<lambda>acc x. if x \<in> set acc then acc else acc @ [x]) [] xs"

definition normalizeSecretOptions :: "SecretValidationOptions option \<Rightarrow> SecretScanOptions" where
  "normalizeSecretOptions secretsOpt =
     (let extraBlocklist = (case secretsOpt of None \<Rightarrow> []
                            | Some s \<Rightarrow> (case blocklist s of None \<Rightarrow> [] | Some b \<Rightarrow> b));
          mergedBlocklist = array_from_set (DEFAULT_SECRET_BLOCKLIST @ map toLowerCase extraBlocklist);
          allowed = (case secretsOpt of None \<Rightarrow> []
                     | Some s \<Rightarrow> (case allowList s of None \<Rightarrow> [] | Some a \<Rightarrow> a));
          m = (case secretsOpt of None \<Rightarrow> DEFAULT_SECRET_MODE
               | Some s \<Rightarrow> (case mode s of None \<Rightarrow> DEFAULT_SECRET_MODE | Some x \<Rightarrow> x))
      in \<lparr>scan_blocklist = mergedBlocklist, scan_allowList = map toLowerCase allowed,
          scan_mode = m\<rparr>)"

text \<open>
  \<^verbatim>\<open>enforceSecretPolicy\<close> returns the warnings it printed. \<^verbatim>\<open>find\<close> gives the first
  blocklist entry the lowercased key contains; an empty entry is falsy and ends the check.
\<close>

definition enforceSecretPolicy :: "string \<Rightarrow> string \<Rightarrow> SecretScanOptions \<Rightarrow> error + string list" where
  "enforceSecretPolicy key path options =
     (let normalizedKey = toLowerCase key in
      case List.find (\<lambda>blockedKey. str_includes normalizedKey blockedKey) (scan_blocklist options) of
        None \<Rightarrow> Inr []
      | Some blocked \<Rightarrow>
          if blocked = [] then Inr []
          else if toLowerCase path \<in> set (scan_allowList options) then Inr []
          else if scan_mode options = Warn then Inr [blocked_message path blocked]
          else Inl (BlockedKeyword path blocked))"

definition ensureSafePropertyName :: "string \<Rightarrow> string \<Rightarrow> error + unit" where
  "ensureSafePropertyName key path =
     (if key \<in> set PROHIBITED_PROPERTY_NAMES
      then Inl (UnsafePropertyName (if path \<noteq> [] then path @ ''.'' @ key else key))
      else Inr ())"

text \<open>\<^verbatim>\<open>isSerializableLeaf\<close>, called on values that are neither arrays nor plain objects.\<close>

fun isSerializableLeaf :: "config \<Rightarrow> bool" where
  "isSerializableLeaf CNull = True"
| "isSerializableLeaf (CStr s) = True"
| "isSerializableLeaf (CNum x) = True"
| "isSerializableLeaf (CBool b) = True"
| "isSerializableLeaf (CDate d) = True"
| "isSerializableLeaf CSerializable = True"
| "isSerializableLeaf v = False"

text \<open>
  \<^verbatim>\<open>scanConfigForSecurityViolations\<close> with its two \<^verbatim>\<open>forEach\<close> loops. The result is the
  first error thrown, or the warnings printed by a scan that returns.
\<close>

fun scanConfigForSecurityViolations :: "config \<Rightarrow> SecretScanOptions \<Rightarrow> string \<Rightarrow> error + string list"
  and scan_elements :: "config list \<Rightarrow> nat \<Rightarrow> SecretScanOptions \<Rightarrow> string \<Rightarrow> error + string list"
  and scan_entries :: "(string \<times> config) list \<Rightarrow> SecretScanOptions \<Rightarrow> string \<Rightarrow> error + string list"
where
  "scanConfigForSecurityViolations (CArr vs) options currentPath =
     scan_elements vs 0 options currentPath"
| "scanConfigForSecurityViolations (CObj es) options currentPath =
     scan_entries es options currentPath"
| "scanConfigForSecurityViolations leaf options currentPath =
     (if \<not> isSerializableLeaf leaf then Inl (UnsupportedValue currentPath) else Inr [])"
| "scan_elements [] index options currentPath = Inr []"
| "scan_elements (entry # rest) index options currentPath =
     (case scanConfigForSecurityViolations entry options
             (currentPath @ ''['' @ index_to_string index @ '']'') of
        Inl e \<Rightarrow> Inl e
      | Inr w1 \<Rightarrow>
          (case scan_elements rest (Suc index) options currentPath of
             Inl e \<Rightarrow> Inl e
           | Inr w2 \<Rightarrow> Inr (w1 @ w2)))"
| "scan_entries [] options currentPath = Inr []"
| "scan_entries ((key, child) # rest) options currentPath =
     (case ensureSafePropertyName key currentPath of
        Inl e \<Rightarrow> Inl e
      | Inr u \<Rightarrow>
          (let nextPath = (if currentPath \<noteq> [] then currentPath @ ''.'' @ key else key) in
           case enforceSecretPolicy key nextPath options of
             Inl e \<Rightarrow> Inl e
           | Inr w0 \<Rightarrow>
               (case scanConfigForSecurityViolations child options nextPath of
                  Inl e \<Rightarrow> Inl e
                | Inr w1 \<Rightarrow>
                    (case scan_entries rest options currentPath of
                       Inl e \<Rightarrow> Inl e
                     | Inr w2 \<Rightarrow> Inr (w0 @ w1 @ w2)))))"

section \<open>The security gate\<close>

text \<open>
  \<^verbatim>\<open>enforceSecurityOnConfig\<close> returns the warnings of the scan and the verification
  result, \<^const>\<open>None\<close> standing for \<^verbatim>\<open>null\<close>.
\<close>

definition shouldValidateJwt :: "node_runtime \<Rightarrow> JwtSecurityOptions option \<Rightarrow> bool" where
  "shouldValidateJwt rt jwtOptions =
     (case jwtOptions of
        Some j \<Rightarrow> (case required j of None \<Rightarrow> False | Some b \<Rightarrow> b)
                    \<or> truthy_env (resolved_token (resolveJwtInputs rt j))
      | None \<Rightarrow> truthy_env (resolved_token (resolveJwtInputs rt empty_jwt_options)))"

definition enforceSecurityOnConfig ::
  "node_runtime \<Rightarrow> config \<Rightarrow> SecurityOptions \<Rightarrow> int
     \<Rightarrow> error + (string list \<times> (json \<times> json) option)" where
  "enforceSecurityOnConfig rt buildTimeConstantsConfig securityOptions now =
     (let secretScanOptions = normalizeSecretOptions (secrets securityOptions) in
      case scanConfigForSecurityViolations buildTimeConstantsConfig secretScanOptions ''custom'' of
        Inl e \<Rightarrow> Inl e
      | Inr warnings \<Rightarrow>
          (let jwtOptions = jwt securityOptions in
           if \<not> shouldValidateJwt rt jwtOptions then Inr (warnings, None)
           else
             (case verifyJwtToken rt
                     (case jwtOptions of None \<Rightarrow> empty_jwt_options | Some j \<Rightarrow> j) now of
                Inl e \<Rightarrow> Inl e
              | Inr r \<Rightarrow> Inr (warnings, Some r))))"

section \<open>Notions used to state the properties\<close>

text \<open>The mapping keys of a configuration tree, at any depth, in depth-first order.\<close>

fun config_keys :: "config \<Rightarrow> string list"
  and elements_keys :: "config list \<Rightarrow> string list"
  and entries_keys :: "(string \<times> config) list \<Rightarrow> string list"
where
  "config_keys (CArr vs) = elements_keys vs"
| "config_keys (CObj es) = entries_keys es"
| "config_keys CNull = []"
| "config_keys (CBool b) = []"
| "config_keys (CNum x) = []"
| "config_keys (CStr s) = []"
| "config_keys (CDate d) = []"
| "config_keys CSerializable = []"
| "config_keys COther = []"
| "elements_keys [] = []"
| "elements_keys (v # vs) = config_keys v @ elements_keys vs"
| "entries_keys [] = []"
| "entries_keys ((k, v) # es) = k # config_keys v @ entries_keys es"

text \<open>Every leaf of the tree is one the scanner accepts.\<close>

fun serializable :: "config \<Rightarrow> bool"
  and serializable_elements :: "config list \<Rightarrow> bool"
  and serializable_entries :: "(string \<times> config) list \<Rightarrow> bool"
where
  "serializable (CArr vs) = serializable_elements vs"
| "serializable (CObj es) = serializable_entries es"
| "serializable CNull = True"
| "serializable (CBool b) = True"
| "serializable (CNum x) = True"
| "serializable (CStr s) = True"
| "serializable (CDate d) = True"
| "serializable CSerializable = True"
| "serializable COther = False"
| "serializable_elements [] = True"
| "serializable_elements (v # vs) = (serializable v \<and> serializable_elements vs)"
| "serializable_entries [] = True"
| "serializable_entries ((k, v) # es) = (serializable v \<and> serializable_entries es)"

text \<open>The lowercased key contains an entry of the blocklist as a substring.\<close>

definition matches_blocklist :: "string list \<Rightarrow> string \<Rightarrow> bool" where
  "matches_blocklist bl key = list_ex (\<lambda>b. str_includes (toLowerCase key) b) bl"

text \<open>Flipping bit \<open>i\<close> of character \<open>j\<close> of a segment.\<close>

definition flip_char_bit :: "nat \<Rightarrow> char \<Rightarrow> char" where
  "flip_char_bit i c = char_of (flip_bit i (of_char c :: nat))"

definition flip_segment_bit :: "string \<Rightarrow> nat \<Rightarrow> nat \<Rightarrow> string" where
  "flip_segment_bit s j i = s[j := flip_char_bit i (s ! j)]"

text \<open>
  The audience set as the specification words it: a bare string is a one-element set, an
  array is the set of its strings, anything else is the empty set.
\<close>

fun json_strings :: "json list \<Rightarrow> string list" where
  "json_strings [] = []"
| "json_strings (JStr s # vs) = s # json_strings vs"
| "json_strings (v # vs) = json_strings vs"

fun claimed_audience :: "json option \<Rightarrow> string list" where
  "claimed_audience (Some (JStr s)) = [s]"
| "claimed_audience (Some (JArr xs)) = json_strings xs"
| "claimed_audience v = []"

section \<open>Worked inputs\<close>

text \<open>
  The HS256 token that the test suite of the repository builds: header
  \<^verbatim>\<open>{"alg":"HS256","typ":"JWT"}\<close>, payload
  \<^verbatim>\<open>{"iss":"astro","aud":"builder","exp":1735689660}\<close>, secret \<^verbatim>\<open>top-secret\<close>, verified at
  2025-01-01T00:00:00Z. The runtime below tabulates Node at these inputs: the two HMAC-SHA256
  values of the signing input (under \<^verbatim>\<open>top-secret\<close> and under the empty key) and the
  results of \<^verbatim>\<open>JSON.parse\<close> on the two JSON texts and on the empty text.
\<close>

definition example_header_segment :: string where
  "example_header_segment = ''eyJhbGciOiJIUzI1NiIsInR5cCI6IkpXVCJ9''"

definition example_payload_segment :: string where
  "example_payload_segment = ''eyJpc3MiOiJhc3RybyIsImF1ZCI6ImJ1aWxkZXIiLCJleHAiOjE3MzU2ODk2NjB9''"

definition example_signature_segment :: string where
  "example_signature_segment = ''zG2XhXMKxzWreSGzzgtQs7eg6pq_qu9qCjA2vKlzZjA''"

definition example_signing_input :: string where
  "example_signing_input = example_header_segment @ ''.'' @ example_payload_segment"

definition example_token :: string where
  "example_token = example_signing_input @ ''.'' @ example_signature_segment"

definition example_header_text :: string where
  \<open>example_header_text = ''{"alg":"HS256","typ":"JWT"}''\<close>

definition example_payload_text :: string where
  \<open>example_payload_text = ''{"iss":"astro","aud":"builder","exp":1735689660}''\<close>

definition example_header :: json where
  "example_header = JObj [(''alg'', JStr ''HS256''), (''typ'', JStr ''JWT'')]"

definition example_payload :: json where
  "example_payload =
     JObj [(''iss'', JStr ''astro''), (''aud'', JStr ''builder''), (''exp'', JNum 1735689660)]"

definition example_now :: int where
  "example_now = 1735689600000"

definition example_mac :: buffer where
  "example_mac =
     [204, 109, 151, 133, 115, 10, 199, 53, 171, 121, 33, 179, 206, 11, 80, 179,
      183, 160, 234, 154, 191, 170, 239, 106, 10, 48, 54, 188, 169, 115, 102, 48]"

definition example_mac_empty_key :: buffer where
  "example_mac_empty_key =
     [55, 46, 145, 100, 12, 22, 162, 183, 255, 83, 100, 56, 21, 7, 69, 19,
      56, 103, 83, 209, 193, 38, 75, 130, 107, 248, 18, 217, 117, 113, 120, 190]"

definition example_createHmac :: "string \<Rightarrow> string \<Rightarrow> string \<Rightarrow> buffer" where
  "example_createHmac hashAlgorithm key input =
     (if hashAlgorithm = ''sha256'' \<and> input = example_signing_input \<and> key = ''top-secret''
      then example_mac
      else if hashAlgorithm = ''sha256'' \<and> input = example_signing_input \<and> key = []
      then example_mac_empty_key
      else [])"

definition example_JSON_parse :: "string \<Rightarrow> string + json" where
  "example_JSON_parse text =
     (if text = example_header_text then Inr example_header
      else if text = example_payload_text then Inr example_payload
      else if text = [] then Inl ''Unexpected end of JSON input''
      else Inl ''Unexpected token'')"

text \<open>
  \<^verbatim>\<open>process.env\<close> for a list of variables: a variable gives its string, and a name that is no
  variable falls through to \<^verbatim>\<open>Object.prototype\<close>.
\<close>

definition object_prototype_names :: "string list" where
  "object_prototype_names =
     [''constructor'', ''__proto__'', ''hasOwnProperty'', ''isPrototypeOf'',
      ''propertyIsEnumerable'', ''toLocaleString'', ''toString'', ''valueOf'',
      ''__defineGetter__'', ''__defineSetter__'', ''__lookupGetter__'', ''__lookupSetter__'']"

definition node_process_env :: "(string \<times> string) list \<Rightarrow> string \<Rightarrow> env_value" where
  "node_process_env variables name =
     (case map_of variables name of
        Some v \<Rightarrow> EnvString v
      | None \<Rightarrow> if name \<in> set object_prototype_names then EnvInherited else EnvUndefined)"

definition example_runtime :: "(string \<Rightarrow> env_value) \<Rightarrow> node_runtime" where
  "example_runtime environment =
     \<lparr>process_env = environment, createHmac = example_createHmac,
      JSON_parse = example_JSON_parse, toString_of = (\<lambda>v. ''[object Object]'')\<rparr>"

definition no_environment :: "string \<Rightarrow> env_value" where
  "no_environment = node_process_env []"

text \<open>The options of the test: explicit token and secret, issuer and audience set.\<close>

definition example_options :: JwtSecurityOptions where
  "example_options =
     empty_jwt_options\<lparr>token := Some example_token, secret := Some ''top-secret'',
       issuer := Some ''astro'', audience := Some (AudString ''builder'')\<rparr>"

text \<open>An environment that holds the token and the secret under the default names.\<close>

definition example_environment :: "string \<Rightarrow> env_value" where
  "example_environment =
     node_process_env [(JWT_TOKEN_ENV, example_token), (JWT_SECRET_ENV, ''top-secret'')]"

text \<open>
  The same signing input signed under the empty key, and a payload with an audience array.
\<close>

definition example_signature_empty_key :: string where
  "example_signature_empty_key = ''Ny6RZAwWorf_U2Q4FQdFEzhnU9HBJkuCa_gS2XVxeL4''"

definition audience_payload :: json where
  "audience_payload = JObj [(''aud'', JArr [JStr ''a'', JStr ''b''])]"

text \<open>Scanner inputs: the normalised default options, warn mode, and small trees.\<close>

definition warn_options :: SecretScanOptions where
  "warn_options = normalizeSecretOptions (Some \<lparr>blocklist = None, allowList = None, mode = Some Warn\<rparr>)"

definition default_scan_options :: SecretScanOptions where
  "default_scan_options = normalizeSecretOptions None"

definition password_and_constructor :: config where
  "password_and_constructor = CObj [(''password'', CStr ''x''), (''constructor'', CStr ''y'')]"

definition nested_proto :: config where
  "nested_proto = CObj [(''a'', CArr [CNull, CObj [(''__proto__'', CStr ''x'')]])]"

definition feature_config :: config where
  "feature_config = CObj [(''featureFlag'', CBool True), (''nested'', CObj [(''value'', CNum 42)])]"

definition api_secret_config :: config where
  "api_secret_config = CObj [(''apiSecret'', CStr ''x'')]"

definition allow_api_secret :: SecurityOptions where
  "allow_api_secret =
     \<lparr>jwt = None,
      secrets = Some \<lparr>blocklist = None, allowList = Some [''custom.apiSecret''], mode = None\<rparr>\<rparr>"

section \<open>Claims about the claim checks\<close>

lemma exponent_up_nonneg: "0 \<le> exponent_up x"
  by (induction x rule: exponent_up.induct) (subst exponent_up.simps, simp)

lemma exponent_up_le: "x < 2 ^ Suc n \<Longrightarrow> exponent_up x \<le> int n"
proof (induction n arbitrary: x)
  case 0
  then show ?case by (subst exponent_up.simps) simp
next
  case (Suc n)
  show ?case
  proof (cases "x < 2")
    case True
    then show ?thesis by (subst exponent_up.simps) simp
  next
    case False
    from Suc.prems have "x / 2 < 2 ^ Suc n" by simp
    from Suc.IH[OF this] False show ?thesis by (subst exponent_up.simps) simp
  qed
qed

lemma round_half_even_of_int: "round_half_even (of_int k) = k"
  by (simp add: round_half_even_def)

lemma to_double_of_int:
  assumes "\<bar>k\<bar> < 2 ^ 53"
  shows "to_double (of_int k) = of_int k"
proof (cases "k = 0")
  case True
  then show ?thesis by (simp add: to_double_def)
next
  case False
  then have one: "(1::real) \<le> \<bar>of_int k\<bar>"
    by (metis abs_zero linorder_not_less of_int_abs one_le_floor floor_of_int zero_less_abs_iff int_one_le_iff_zero_less)
  define e where "e = exponent_up \<bar>of_int k :: real\<bar>"
  have "\<bar>of_int k :: real\<bar> < 2 ^ Suc 52" using assms
    by (metis of_int_abs of_int_less_iff of_int_numeral of_int_power numeral_eq_Suc pred_numeral_simps(3) Suc_eq_plus1 add.commute eval_nat_numeral(3))
  then have "e \<le> 52" unfolding e_def using exponent_up_le[of _ 52] by simp
  define p where "p = nat (52 - e)"
  have q: "binary_exponent \<bar>of_int k\<bar> - 52 = - int p"
    using one \<open>e \<le> 52\<close> by (simp add: binary_exponent_def e_def p_def)
  have pw: "pow2 (- int p) = 1 / 2 ^ p" by (simp add: pow2_def)
  have "round_half_even (of_int k / (1 / 2 ^ p)) = k * 2 ^ p"
    using round_half_even_of_int[of "k * 2 ^ p"] by simp
  then show ?thesis
    using False by (simp add: to_double_def q pw)
qed

lemma date_seconds_exact:
  assumes "\<bar>now\<bar> \<le> 8640000000000000" and "k = 1 \<or> k = - 1"
  shows "to_double (real_of_int (now div 1000 + k)) = real_of_int (now div 1000 + k)"
proof -
  have lo: "- 8640000000000 \<le> now div 1000" using assms(1) by linarith
  have hi: "now div 1000 \<le> 8640000000000" using assms(1) by linarith
  have "\<bar>now div 1000 + k\<bar> < 2 ^ 53" using lo hi assms(2) by auto
  then show ?thesis by (rule to_double_of_int)
qed

text \<open>
  C4 (as amended). With clock tolerance \<open>t\<close> (the option, 60 when it is absent) and
  \<open>now_seconds = floor(now / 1000)\<close>, a payload is rejected as expired exactly when its \<^verbatim>\<open>exp\<close>
  claim is a number and \<open>now_seconds\<close> is at least the double-precision sum of \<open>exp\<close> and \<open>t\<close>;
  when that sum is exact this is \<open>now_seconds \<ge> exp + t\<close>. For a valid date and the default
  tolerance, \<open>exp = now_seconds - 61\<close> is rejected as expired and \<open>exp = now_seconds - 59\<close> is
  not.
\<close>

theorem expiry_semantics:
  "(validateJwtClaims payload options now = Inl TokenExpired
      \<longleftrightarrow> (\<exists>e. get_prop payload ''exp'' = Some (JNum e)
                \<and> real_of_int (now div 1000)
                    \<ge> to_double (e + (case clockToleranceSeconds options of
                                         None \<Rightarrow> 60 | Some t \<Rightarrow> t))))
   \<and> (get_prop payload ''exp'' = Some (JNum x)
        \<and> (case clockToleranceSeconds options of None \<Rightarrow> 60 | Some t \<Rightarrow> t) = tol
        \<and> to_double (x + tol) = x + tol
      \<longrightarrow> (validateJwtClaims payload options now = Inl TokenExpired
             \<longleftrightarrow> real_of_int (now div 1000) \<ge> x + tol))
   \<and> (clockToleranceSeconds options = None \<and> \<bar>now\<bar> \<le> 8640000000000000
        \<and> get_prop payload ''exp'' = Some (JNum (real_of_int (now div 1000) - 61))
      \<longrightarrow> validateJwtClaims payload options now = Inl TokenExpired)
   \<and> (clockToleranceSeconds options = None \<and> \<bar>now\<bar> \<le> 8640000000000000
        \<and> get_prop payload ''exp'' = Some (JNum (real_of_int (now div 1000) - 59))
      \<longrightarrow> validateJwtClaims payload options now \<noteq> Inl TokenExpired)"
proof -
  have iff: "validateJwtClaims payload options now = Inl TokenExpired
      \<longleftrightarrow> (\<exists>e. get_prop payload ''exp'' = Some (JNum e)
                \<and> real_of_int (now div 1000)
                    \<ge> to_double (e + (case clockToleranceSeconds options of
                                         None \<Rightarrow> 60 | Some t \<Rightarrow> t)))"
    by (auto simp: validateJwtClaims_def number_claim_def null_read_def js_add_def Let_def
        split: option.splits json.splits if_splits)
  have exact: "get_prop payload ''exp'' = Some (JNum x)
        \<and> (case clockToleranceSeconds options of None \<Rightarrow> 60 | Some t \<Rightarrow> t) = tol
        \<and> to_double (x + tol) = x + tol
      \<longrightarrow> (validateJwtClaims payload options now = Inl TokenExpired
             \<longleftrightarrow> real_of_int (now div 1000) \<ge> x + tol)"
    unfolding iff by auto
  have before: "clockToleranceSeconds options = None \<and> \<bar>now\<bar> \<le> 8640000000000000
        \<and> get_prop payload ''exp'' = Some (JNum (real_of_int (now div 1000) - 61))
      \<longrightarrow> validateJwtClaims payload options now = Inl TokenExpired"
  proof
    assume h: "clockToleranceSeconds options = None \<and> \<bar>now\<bar> \<le> 8640000000000000
        \<and> get_prop payload ''exp'' = Some (JNum (real_of_int (now div 1000) - 61))"
    have eq: "real_of_int (now div 1000) - 61 + 60 = real_of_int (now div 1000 + - 1)"
      by simp
    have "to_double (real_of_int (now div 1000) - 61 + 60) = real_of_int (now div 1000 + - 1)"
      unfolding eq using h by (intro date_seconds_exact) simp_all
    then have "to_double (real_of_int (now div 1000) - 61 + 60) \<le> real_of_int (now div 1000)"
      by simp
    with h show "validateJwtClaims payload options now = Inl TokenExpired"
      unfolding iff by simp
  qed
  have after: "clockToleranceSeconds options = None \<and> \<bar>now\<bar> \<le> 8640000000000000
        \<and> get_prop payload ''exp'' = Some (JNum (real_of_int (now div 1000) - 59))
      \<longrightarrow> validateJwtClaims payload options now \<noteq> Inl TokenExpired"
  proof
    assume h: "clockToleranceSeconds options = None \<and> \<bar>now\<bar> \<le> 8640000000000000
        \<and> get_prop payload ''exp'' = Some (JNum (real_of_int (now div 1000) - 59))"
    have eq: "real_of_int (now div 1000) - 59 + 60 = real_of_int (now div 1000 + 1)"
      by simp
    have "to_double (real_of_int (now div 1000) - 59 + 60) = real_of_int (now div 1000 + 1)"
      unfolding eq using h by (intro date_seconds_exact) simp_all
    then have "\<not> to_double (real_of_int (now div 1000) - 59 + 60) \<le> real_of_int (now div 1000)"
      by simp
    with h show "validateJwtClaims payload options now \<noteq> Inl TokenExpired"
      unfolding iff by simp
  qed
  from iff exact before after show ?thesis by blast
qed

theorem expiry_semantics_witness:
  "validateJwtClaims (JObj [(''exp'', JNum 1735689540)]) empty_jwt_options example_now
     = Inl TokenExpired
   \<and> validateJwtClaims (JObj [(''exp'', JNum (1735689540 + 1 / 2))]) empty_jwt_options example_now
     \<noteq> Inl TokenExpired
   \<and> validateJwtClaims (JObj [(''exp'', JNum 1735689590)])
        (empty_jwt_options\<lparr>clockToleranceSeconds := Some 10\<rparr>) (example_now + 999)
     = Inl TokenExpired
   \<and> validateJwtClaims (JObj [(''exp'', JNum 1735689591)])
        (empty_jwt_options\<lparr>clockToleranceSeconds := Some 10\<rparr>) (example_now + 999)
     \<noteq> Inl TokenExpired
   \<and> validateJwtClaims (JObj [(''exp'', JNum 1735689539)]) empty_jwt_options example_now
     = Inl TokenExpired
   \<and> validateJwtClaims (JObj [(''exp'', JNum 1735689541)]) empty_jwt_options example_now
     \<noteq> Inl TokenExpired"
proof -
  let ?ten = "empty_jwt_options\<lparr>clockToleranceSeconds := Some 10\<rparr>"
  have now: "real_of_int (example_now div 1000) = 1735689600"
    "real_of_int ((example_now + 999) div 1000) = 1735689600"
    by (simp_all add: example_now_def)
  have valid: "\<bar>example_now\<bar> \<le> 8640000000000000"
    by (simp add: example_now_def)
  have tol: "(case clockToleranceSeconds empty_jwt_options of None \<Rightarrow> 60 | Some t \<Rightarrow> t) = (60::real)"
    "(case clockToleranceSeconds ?ten of None \<Rightarrow> 60 | Some t \<Rightarrow> t) = (10::real)"
    "clockToleranceSeconds empty_jwt_options = None"
    by (simp_all add: empty_jwt_options_def)
  have exact: "to_double (1735689540 + 60) = 1735689540 + 60"
    "to_double (1735689540 + 1 / 2 + 60) = 1735689540 + 1 / 2 + 60"
    "to_double (1735689590 + 10) = 1735689590 + 10"
    "to_double (1735689591 + 10) = 1735689591 + 10"
    by code_simp+
  have exp: "\<And>x. get_prop (JObj [(''exp'', JNum x)]) ''exp'' = Some (JNum x)"
    by simp
  have "validateJwtClaims (JObj [(''exp'', JNum 1735689540)]) empty_jwt_options example_now
          = Inl TokenExpired
      \<longleftrightarrow> real_of_int (example_now div 1000) \<ge> 1735689540 + 60"
    using expiry_semantics [of "JObj [(''exp'', JNum 1735689540)]" empty_jwt_options example_now
        1735689540 60] exp tol(1) exact(1)
    by blast
  then have a: "validateJwtClaims (JObj [(''exp'', JNum 1735689540)]) empty_jwt_options example_now
     = Inl TokenExpired"
    by (simp add: now)
  have "validateJwtClaims (JObj [(''exp'', JNum (1735689540 + 1 / 2))]) empty_jwt_options example_now
          = Inl TokenExpired
      \<longleftrightarrow> real_of_int (example_now div 1000) \<ge> 1735689540 + 1 / 2 + 60"
    using expiry_semantics [of "JObj [(''exp'', JNum (1735689540 + 1 / 2))]" empty_jwt_options
        example_now "1735689540 + 1 / 2" 60] exp tol(1) exact(2)
    by blast
  then have b: "validateJwtClaims (JObj [(''exp'', JNum (1735689540 + 1 / 2))]) empty_jwt_options
      example_now \<noteq> Inl TokenExpired"
    by (simp add: now)
  have "validateJwtClaims (JObj [(''exp'', JNum 1735689590)]) ?ten (example_now + 999)
          = Inl TokenExpired
      \<longleftrightarrow> real_of_int ((example_now + 999) div 1000) \<ge> 1735689590 + 10"
    using expiry_semantics [of "JObj [(''exp'', JNum 1735689590)]" ?ten "example_now + 999"
        1735689590 10] exp tol(2) exact(3)
    by blast
  then have c: "validateJwtClaims (JObj [(''exp'', JNum 1735689590)]) ?ten (example_now + 999)
     = Inl TokenExpired"
    by (simp add: now)
  have "validateJwtClaims (JObj [(''exp'', JNum 1735689591)]) ?ten (example_now + 999)
          = Inl TokenExpired
      \<longleftrightarrow> real_of_int ((example_now + 999) div 1000) \<ge> 1735689591 + 10"
    using expiry_semantics [of "JObj [(''exp'', JNum 1735689591)]" ?ten "example_now + 999"
        1735689591 10] exp tol(2) exact(4)
    by blast
  then have d: "validateJwtClaims (JObj [(''exp'', JNum 1735689591)]) ?ten (example_now + 999)
     \<noteq> Inl TokenExpired"
    by (simp add: now)
  have e61: "get_prop (JObj [(''exp'', JNum 1735689539)]) ''exp''
      = Some (JNum (real_of_int (example_now div 1000) - 61))"
    and e59: "get_prop (JObj [(''exp'', JNum 1735689541)]) ''exp''
      = Some (JNum (real_of_int (example_now div 1000) - 59))"
    by (simp_all add: now)
  have e: "validateJwtClaims (JObj [(''exp'', JNum 1735689539)]) empty_jwt_options example_now
     = Inl TokenExpired"
    using expiry_semantics [of "JObj [(''exp'', JNum 1735689539)]" empty_jwt_options example_now]
      tol(3) valid e61
    by blast
  have f: "validateJwtClaims (JObj [(''exp'', JNum 1735689541)]) empty_jwt_options example_now
     \<noteq> Inl TokenExpired"
    using expiry_semantics [of "JObj [(''exp'', JNum 1735689541)]" empty_jwt_options example_now]
      tol(3) valid e59
    by blast
  from a b c d e f show ?thesis by blast
qed

text \<open>
  The sum is rounded: at 2025-01-01T00:00:00Z, with \<^verbatim>\<open>exp = 1735689600\<close> and the tolerance
  \<open>2^-60\<close>, the exact sum exceeds \<open>now_seconds\<close>, the double-precision sum equals it, and
  the payload is rejected as expired.
\<close>

theorem expiry_rounding_counterexample:
  "\<not> real_of_int (example_now div 1000) \<ge> 1735689600 + 1 / 2 ^ 60
   \<and> validateJwtClaims (JObj [(''exp'', JNum 1735689600)])
        (empty_jwt_options\<lparr>clockToleranceSeconds := Some (1 / 2 ^ 60)\<rparr>) example_now
       = Inl TokenExpired"
  by code_simp

section \<open>Claims about missing inputs\<close>

text \<open>
  C10. An explicit empty-string token is kept by the resolution (the environment is not
  consulted), and a resolved token that is the empty string makes the verifier fail with
  the missing-token error; likewise an explicit empty-string secret is kept, and, the token
  being present, an empty resolved secret gives the missing-secret error.
\<close>

theorem empty_token_is_missing:
  "(token options = Some [] \<longrightarrow> resolved_token (resolveJwtInputs rt options) = EnvString [])
   \<and> (resolved_token (resolveJwtInputs rt options) = EnvString []
      \<longrightarrow> verifyJwtToken rt options now
            = Inl (MissingToken (resolved_tokenEnvName (resolveJwtInputs rt options))))
   \<and> (secret options = Some [] \<longrightarrow> resolved_secret (resolveJwtInputs rt options) = EnvString [])
   \<and> (truthy_env (resolved_token (resolveJwtInputs rt options))
        \<and> resolved_secret (resolveJwtInputs rt options) = EnvString []
      \<longrightarrow> verifyJwtToken rt options now
            = Inl (MissingSecret (resolved_secretEnvName (resolveJwtInputs rt options))))"
proof -
  have t: "token options = Some [] \<longrightarrow> resolved_token (resolveJwtInputs rt options) = EnvString []"
    by (simp add: resolveJwtInputs_def Let_def)
  have s: "secret options = Some [] \<longrightarrow> resolved_secret (resolveJwtInputs rt options) = EnvString []"
    by (simp add: resolveJwtInputs_def Let_def)
  have vt: "resolved_token (resolveJwtInputs rt options) = EnvString []
      \<longrightarrow> verifyJwtToken rt options now
            = Inl (MissingToken (resolved_tokenEnvName (resolveJwtInputs rt options)))"
    by (simp add: verifyJwtToken_def Let_def)
  have vs: "truthy_env (resolved_token (resolveJwtInputs rt options))
        \<and> resolved_secret (resolveJwtInputs rt options) = EnvString []
      \<longrightarrow> verifyJwtToken rt options now
            = Inl (MissingSecret (resolved_secretEnvName (resolveJwtInputs rt options)))"
    by (cases "resolved_token (resolveJwtInputs rt options)") (simp_all add: verifyJwtToken_def Let_def)
  from t s vt vs show ?thesis by blast
qed

theorem empty_token_is_missing_witness:
  "verifyJwtToken (example_runtime example_environment) (empty_jwt_options\<lparr>token := Some []\<rparr>) example_now
     = Inl (MissingToken ''ASTRO_BUILD_TIME_TOKEN'')
   \<and> verifyJwtToken (example_runtime example_environment) (empty_jwt_options\<lparr>secret := Some []\<rparr>) example_now
     = Inl (MissingSecret ''ASTRO_BUILD_TIME_SECRET'')
   \<and> verifyJwtToken (example_runtime example_environment) empty_jwt_options example_now
     = Inr (example_header, example_payload)"
proof -
  let ?rt = "example_runtime example_environment"
  have names: "resolved_tokenEnvName (resolveJwtInputs ?rt (empty_jwt_options\<lparr>token := Some []\<rparr>)) = ''ASTRO_BUILD_TIME_TOKEN''"
    "resolved_secretEnvName (resolveJwtInputs ?rt (empty_jwt_options\<lparr>secret := Some []\<rparr>)) = ''ASTRO_BUILD_TIME_SECRET''"
    by (simp_all add: resolveJwtInputs_def empty_jwt_options_def JWT_TOKEN_ENV_def JWT_SECRET_ENV_def Let_def)
  have tok: "truthy_env (resolved_token (resolveJwtInputs ?rt (empty_jwt_options\<lparr>secret := Some []\<rparr>)))"
    by code_simp
  have a: "verifyJwtToken ?rt (empty_jwt_options\<lparr>token := Some []\<rparr>) example_now
     = Inl (MissingToken ''ASTRO_BUILD_TIME_TOKEN'')"
    using empty_token_is_missing [of "empty_jwt_options\<lparr>token := Some []\<rparr>" ?rt example_now] names
    by simp
  have b: "verifyJwtToken ?rt (empty_jwt_options\<lparr>secret := Some []\<rparr>) example_now
     = Inl (MissingSecret ''ASTRO_BUILD_TIME_SECRET'')"
    using empty_token_is_missing [of "empty_jwt_options\<lparr>secret := Some []\<rparr>" ?rt example_now] names tok
    by simp
  have c: "verifyJwtToken ?rt empty_jwt_options example_now = Inr (example_header, example_payload)"
    by code_simp
  from a b c show ?thesis by simp
qed

section \<open>Claims about the secret scanner\<close>

lemma find_no_match:
  "\<not> list_ex P xs \<Longrightarrow> List.find P xs = None"
  by (simp add: find_None_iff list_ex_iff)

lemma enforceSecretPolicy_no_match:
  "\<not> matches_blocklist (scan_blocklist options) key \<Longrightarrow> enforceSecretPolicy key path options = Inr []"
  by (simp add: enforceSecretPolicy_def matches_blocklist_def find_no_match)

lemma ensureSafePropertyName_safe:
  "key \<notin> set PROHIBITED_PROPERTY_NAMES \<Longrightarrow> ensureSafePropertyName key path = Inr ()"
  by (simp add: ensureSafePropertyName_def)

lemma scan_clean:
  "serializable t \<Longrightarrow>
     (\<forall>k\<in>set (config_keys t). k \<notin> set PROHIBITED_PROPERTY_NAMES
         \<and> \<not> matches_blocklist (scan_blocklist options) k) \<Longrightarrow>
     scanConfigForSecurityViolations t options path = Inr []"
  "serializable_elements vs \<Longrightarrow>
     (\<forall>k\<in>set (elements_keys vs). k \<notin> set PROHIBITED_PROPERTY_NAMES
         \<and> \<not> matches_blocklist (scan_blocklist options) k) \<Longrightarrow>
     scan_elements vs i options path = Inr []"
  "serializable_entries es \<Longrightarrow>
     (\<forall>k\<in>set (entries_keys es). k \<notin> set PROHIBITED_PROPERTY_NAMES
         \<and> \<not> matches_blocklist (scan_blocklist options) k) \<Longrightarrow>
     scan_entries es options path = Inr []"
proof (induct t options path and vs i options path and es options path
    rule: scanConfigForSecurityViolations_scan_elements_scan_entries.induct)
  case (5 entry rest index options currentPath)
  then show ?case by simp
next
  case (7 key child rest options currentPath)
  then show ?case
    by (simp add: enforceSecretPolicy_no_match ensureSafePropertyName_safe Let_def)
qed simp_all

lemma scan_returns_safe:
  "scanConfigForSecurityViolations t options path = Inr w \<Longrightarrow>
     \<forall>k\<in>set (config_keys t). k \<notin> set PROHIBITED_PROPERTY_NAMES"
  "scan_elements vs i options path = Inr w \<Longrightarrow>
     \<forall>k\<in>set (elements_keys vs). k \<notin> set PROHIBITED_PROPERTY_NAMES"
  "scan_entries es options path = Inr w \<Longrightarrow>
     \<forall>k\<in>set (entries_keys es). k \<notin> set PROHIBITED_PROPERTY_NAMES"
proof (induct t options path and vs i options path and es options path
    arbitrary: w and w and w
    rule: scanConfigForSecurityViolations_scan_elements_scan_entries.induct)
  case (5 entry rest index options currentPath)
  from 5(3) obtain w1 w2 where
    r1: "scanConfigForSecurityViolations entry options
           (currentPath @ ''['' @ index_to_string index @ '']'') = Inr w1"
    and r2: "scan_elements rest (Suc index) options currentPath = Inr w2"
    by (auto split: sum.splits)
  from 5(1)[OF r1] 5(2)[OF r1 r2] show ?case by auto
next
  case (7 key child rest options currentPath)
  let ?next = "if currentPath \<noteq> [] then currentPath @ ''.'' @ key else key"
  from 7(3) obtain u w0 w1 w2 where
    safe: "ensureSafePropertyName key currentPath = Inr u"
    and w0: "enforceSecretPolicy key ?next options = Inr w0"
    and w1: "scanConfigForSecurityViolations child options ?next = Inr w1"
    and w2: "scan_entries rest options currentPath = Inr w2"
    by (auto simp: Let_def split: sum.splits)
  from safe have "key \<notin> set PROHIBITED_PROPERTY_NAMES"
    by (simp add: ensureSafePropertyName_def split: if_splits)
  with 7(1)[OF safe refl w0 w1] 7(2)[OF safe refl w0 w1 w2] show ?case by auto
qed simp_all

lemma scan_unsafe_fails:
  assumes "\<exists>k\<in>set (config_keys t). k \<in> set PROHIBITED_PROPERTY_NAMES"
  shows "\<exists>e. scanConfigForSecurityViolations t options path = Inl e"
proof (cases "scanConfigForSecurityViolations t options path")
  case (Inl e)
  then show ?thesis by blast
next
  case (Inr w)
  from scan_returns_safe(1)[OF Inr] assms show ?thesis by blast
qed

lemma enforceSecretPolicy_quiet:
  "scan_mode options = Warn \<or> \<not> matches_blocklist (scan_blocklist options) key \<Longrightarrow>
     \<exists>w. enforceSecretPolicy key path options = Inr w"
  by (auto simp: enforceSecretPolicy_def matches_blocklist_def find_no_match Let_def split: option.splits)

lemma scan_only_unsafe:
  "serializable t \<Longrightarrow>
     (scan_mode options = Warn \<or> (\<forall>k\<in>set (config_keys t). \<not> matches_blocklist (scan_blocklist options) k)) \<Longrightarrow>
     \<forall>e. scanConfigForSecurityViolations t options path = Inl e \<longrightarrow> (\<exists>target. e = UnsafePropertyName target)"
  "serializable_elements vs \<Longrightarrow>
     (scan_mode options = Warn \<or> (\<forall>k\<in>set (elements_keys vs). \<not> matches_blocklist (scan_blocklist options) k)) \<Longrightarrow>
     \<forall>e. scan_elements vs i options path = Inl e \<longrightarrow> (\<exists>target. e = UnsafePropertyName target)"
  "serializable_entries es \<Longrightarrow>
     (scan_mode options = Warn \<or> (\<forall>k\<in>set (entries_keys es). \<not> matches_blocklist (scan_blocklist options) k)) \<Longrightarrow>
     \<forall>e. scan_entries es options path = Inl e \<longrightarrow> (\<exists>target. e = UnsafePropertyName target)"
proof (induct t options path and vs i options path and es options path
    rule: scanConfigForSecurityViolations_scan_elements_scan_entries.induct)
  case (5 entry rest index options currentPath)
  then show ?case by (auto split: sum.splits)
next
  case (7 key child rest options currentPath)
  let ?next = "if currentPath \<noteq> [] then currentPath @ ''.'' @ key else key"
  from 7(4) have "scan_mode options = Warn \<or> \<not> matches_blocklist (scan_blocklist options) key"
    by auto
  then obtain w where w: "enforceSecretPolicy key ?next options = Inr w"
    using enforceSecretPolicy_quiet by blast
  from 7(3,4) have sub:
    "serializable child" "serializable_entries rest"
    "scan_mode options = Warn \<or> (\<forall>k\<in>set (config_keys child). \<not> matches_blocklist (scan_blocklist options) k)"
    "scan_mode options = Warn \<or> (\<forall>k\<in>set (entries_keys rest). \<not> matches_blocklist (scan_blocklist options) k)"
    by auto
  show ?case
  proof (cases "ensureSafePropertyName key currentPath")
    case (Inl a)
    then show ?thesis
      by (auto simp: ensureSafePropertyName_def split: if_splits)
  next
    case safe: (Inr u)
    note ih1 = 7(1)[OF safe refl w sub(1,3)]
    show ?thesis
    proof (cases "scanConfigForSecurityViolations child options ?next")
      case (Inl a)
      with safe w ih1 show ?thesis by (simp add: Let_def)
    next
      case (Inr w1)
      note ih2 = 7(2)[OF safe refl w Inr sub(2,4)]
      with safe w Inr show ?thesis by (simp add: Let_def split: sum.splits)
    qed
  qed
qed simp_all

text \<open>
  C6 (as amended). A tree with a mapping key \<^verbatim>\<open>__proto__\<close>, \<^verbatim>\<open>prototype\<close> or \<^verbatim>\<open>constructor\<close> at
  any depth makes the scanner throw, in both modes and for every blocklist and allow-list.
  The error is the unsafe-property-name error when every leaf is serializable and the mode
  is \<^verbatim>\<open>warn\<close> or no key matches the blocklist.
\<close>

theorem unsafe_key_always_fails:
  assumes "\<exists>k\<in>set (config_keys t). k \<in> set PROHIBITED_PROPERTY_NAMES"
  shows "(\<exists>e. scanConfigForSecurityViolations t options path = Inl e)
    \<and> (serializable t
        \<and> (scan_mode options = Warn
            \<or> (\<forall>k\<in>set (config_keys t). \<not> matches_blocklist (scan_blocklist options) k))
       \<longrightarrow> (\<exists>target. scanConfigForSecurityViolations t options path = Inl (UnsafePropertyName target)))"
proof -
  from scan_unsafe_fails[OF assms] obtain e
    where e: "scanConfigForSecurityViolations t options path = Inl e" by blast
  show ?thesis
  proof (intro conjI impI)
    show "\<exists>e. scanConfigForSecurityViolations t options path = Inl e" using e by blast
  next
    assume "serializable t
        \<and> (scan_mode options = Warn
            \<or> (\<forall>k\<in>set (config_keys t). \<not> matches_blocklist (scan_blocklist options) k))"
    with scan_only_unsafe(1)[of t options path] e
    show "\<exists>target. scanConfigForSecurityViolations t options path = Inl (UnsafePropertyName target)"
      by auto
  qed
qed

theorem unsafe_key_always_fails_witness:
  "(\<exists>e. scanConfigForSecurityViolations nested_proto default_scan_options ''custom'' = Inl e)
   \<and> scanConfigForSecurityViolations nested_proto default_scan_options ''custom''
       = Inl (UnsafePropertyName ''custom.a[1].__proto__'')
   \<and> (\<exists>target. scanConfigForSecurityViolations password_and_constructor warn_options ''custom''
          = Inl (UnsafePropertyName target))
   \<and> scanConfigForSecurityViolations password_and_constructor warn_options ''custom''
       = Inl (UnsafePropertyName ''custom.constructor'')"
proof -
  have k1: "\<exists>k\<in>set (config_keys nested_proto). k \<in> set PROHIBITED_PROPERTY_NAMES"
    by code_simp
  have k2: "\<exists>k\<in>set (config_keys password_and_constructor). k \<in> set PROHIBITED_PROPERTY_NAMES"
    by code_simp
  have s2: "serializable password_and_constructor" by code_simp
  have m2: "scan_mode warn_options = Warn" by code_simp
  have a: "\<exists>e. scanConfigForSecurityViolations nested_proto default_scan_options ''custom'' = Inl e"
    using unsafe_key_always_fails[OF k1] by blast
  have b: "\<exists>target. scanConfigForSecurityViolations password_and_constructor warn_options ''custom''
          = Inl (UnsafePropertyName target)"
    using unsafe_key_always_fails[OF k2, of warn_options "''custom''"] s2 m2 by blast
  have c: "scanConfigForSecurityViolations nested_proto default_scan_options ''custom''
       = Inl (UnsafePropertyName ''custom.a[1].__proto__'')"
    by code_simp
  have d: "scanConfigForSecurityViolations password_and_constructor warn_options ''custom''
       = Inl (UnsafePropertyName ''custom.constructor'')"
    by code_simp
  from a b c d show ?thesis by blast
qed

theorem unsafe_key_error_counterexample:
  "''constructor'' \<in> set (config_keys password_and_constructor)
   \<and> ''constructor'' \<in> set PROHIBITED_PROPERTY_NAMES
   \<and> scanConfigForSecurityViolations password_and_constructor default_scan_options ''custom''
       = Inl (BlockedKeyword ''custom.password'' ''password'')"
  by code_simp

text \<open>
  C7 (as amended). A tree whose leaves are all serializable, none of whose keys is an
  unsafe property name and none of whose lowercased keys contains a blocklist entry, is
  scanned without an error and without a warning.
\<close>

theorem clean_tree_passes:
  assumes "serializable t"
    and "\<forall>k\<in>set (config_keys t). k \<notin> set PROHIBITED_PROPERTY_NAMES
          \<and> \<not> matches_blocklist (scan_blocklist options) k"
  shows "scanConfigForSecurityViolations t options path = Inr []"
  using assms by (rule scan_clean(1))

theorem clean_tree_passes_witness:
  "serializable feature_config
   \<and> scanConfigForSecurityViolations feature_config default_scan_options ''custom'' = Inr []"
proof -
  have s: "serializable feature_config" by code_simp
  have k: "\<forall>k\<in>set (config_keys feature_config). k \<notin> set PROHIBITED_PROPERTY_NAMES
          \<and> \<not> matches_blocklist (scan_blocklist default_scan_options) k"
    by code_simp
  from clean_tree_passes[OF s k] s show ?thesis by simp
qed

theorem clean_tree_counterexample:
  "\<not> list_ex (matches_blocklist (scan_blocklist default_scan_options))
        (config_keys (CObj [(''constructor'', CStr ''x'')]))
   \<and> scanConfigForSecurityViolations (CObj [(''constructor'', CStr ''x'')]) default_scan_options ''custom''
       = Inl (UnsafePropertyName ''custom.constructor'')"
  by code_simp

section \<open>Claims about the security gate\<close>

lemma scan_entries_append:
  "scan_entries (xs @ ys) options path
     = (case scan_entries xs options path of
          Inl e \<Rightarrow> Inl e
        | Inr w \<Rightarrow> (case scan_entries ys options path of
                      Inl e \<Rightarrow> Inl e
                    | Inr w' \<Rightarrow> Inr (w @ w')))"
proof (induction xs)
  case Nil
  show ?case by (simp split: sum.splits)
next
  case (Cons a xs)
  obtain k c where a: "a = (k, c)" by (cases a)
  define nextPath where "nextPath = (if path \<noteq> [] then path @ ''.'' @ k else k)"
  have step: "scan_entries ((k, c) # zs) options path
      = (case ensureSafePropertyName k path of
           Inl e \<Rightarrow> Inl e
         | Inr u \<Rightarrow>
             (case enforceSecretPolicy k nextPath options of
                Inl e \<Rightarrow> Inl e
              | Inr w0 \<Rightarrow>
                  (case scanConfigForSecurityViolations c options nextPath of
                     Inl e \<Rightarrow> Inl e
                   | Inr w1 \<Rightarrow>
                       (case scan_entries zs options path of
                          Inl e \<Rightarrow> Inl e
                        | Inr w2 \<Rightarrow> Inr (w0 @ w1 @ w2)))))" for zs
    unfolding scan_entries.simps nextPath_def Let_def by (rule refl)
  show ?case
    unfolding a append_Cons step Cons.IH
    by (cases "ensureSafePropertyName k path"; cases "enforceSecretPolicy k nextPath options";
        cases "scanConfigForSecurityViolations c options nextPath";
        cases "scan_entries xs options path"; cases "scan_entries ys options path") simp_all
qed

lemma find_array_from_set_aux:
  "List.find P (foldl (\<lambda>acc x. if x \<in> set acc then acc else acc @ [x]) acc xs)
     = (case List.find P acc of Some y \<Rightarrow> Some y | None \<Rightarrow> List.find P xs)"
proof (induction xs arbitrary: acc)
  case Nil
  then show ?case by (simp split: option.splits)
next
  case (Cons x xs)
  show ?case
  proof (cases "x \<in> set acc")
    case True
    then have "List.find P acc = None \<Longrightarrow> \<not> P x"
      by (auto simp: find_None_iff)
    with True show ?thesis
      by (simp add: Cons.IH split: option.splits)
  next
    case False
    have "List.find P (acc @ [x])
        = (case List.find P acc of Some y \<Rightarrow> Some y | None \<Rightarrow> if P x then Some x else None)"
      by (induction acc) auto
    with False show ?thesis
      by (simp add: Cons.IH split: option.splits)
  qed
qed

lemma find_array_from_set:
  "List.find P (array_from_set xs) = List.find P xs"
  by (simp add: array_from_set_def find_array_from_set_aux)

lemma truthy_env_iff:
  "truthy_env v \<longleftrightarrow> v \<noteq> EnvUndefined \<and> v \<noteq> EnvString []"
  by (cases v) simp_all

lemma shouldValidateJwt_iff:
  "shouldValidateJwt rt jwtOptions
     \<longleftrightarrow> (case jwtOptions of
            None \<Rightarrow> process_env rt ''ASTRO_BUILD_TIME_TOKEN'' \<noteq> EnvUndefined
                     \<and> process_env rt ''ASTRO_BUILD_TIME_TOKEN'' \<noteq> EnvString []
          | Some j \<Rightarrow>
              required j = Some True
              \<or> (case token j of
                    Some t \<Rightarrow> t \<noteq> []
                  | None \<Rightarrow>
                      (case tokenEnvName j of
                         None \<Rightarrow> process_env rt ''ASTRO_BUILD_TIME_TOKEN'' \<noteq> EnvUndefined
                                  \<and> process_env rt ''ASTRO_BUILD_TIME_TOKEN'' \<noteq> EnvString []
                       | Some n \<Rightarrow> n \<noteq> [] \<and> process_env rt n \<noteq> EnvUndefined
                                  \<and> process_env rt n \<noteq> EnvString [])))"
  by (auto simp: shouldValidateJwt_def resolveJwtInputs_def JWT_TOKEN_ENV_def Let_def
      empty_jwt_options_def truthy_env_iff split: option.splits)

lemma root_key_blocked:
  assumes before: "scan_entries before (normalizeSecretOptions sopt) ''custom'' = Inr w0"
    and safe: "k \<noteq> ''__proto__''" "k \<noteq> ''prototype''" "k \<noteq> ''constructor''"
    and found: "List.find (\<lambda>b. str_includes (toLowerCase k) b)
              (DEFAULT_SECRET_BLOCKLIST
                 @ map toLowerCase (case sopt of None \<Rightarrow> []
                     | Some s \<Rightarrow> (case blocklist s of None \<Rightarrow> [] | Some b \<Rightarrow> b))) = Some kw"
    and kw: "kw \<noteq> []"
    and mode: "case sopt of None \<Rightarrow> True | Some s \<Rightarrow> mode s \<noteq> Some Warn"
    and allow: "toLowerCase (''custom.'' @ k)
        \<notin> toLowerCase ` set (case sopt of None \<Rightarrow> []
              | Some s \<Rightarrow> (case allowList s of None \<Rightarrow> [] | Some a \<Rightarrow> a))"
  shows "scanConfigForSecurityViolations (CObj (before @ (k, v) # rest))
           (normalizeSecretOptions sopt) ''custom''
         = Inl (BlockedKeyword (''custom.'' @ k) kw)"
proof -
  let ?o = "normalizeSecretOptions sopt"
  have f: "List.find (\<lambda>b. str_includes (toLowerCase k) b) (scan_blocklist ?o) = Some kw"
    using found by (simp add: normalizeSecretOptions_def Let_def find_array_from_set)
  have m: "scan_mode ?o \<noteq> Warn"
    using mode by (auto simp: normalizeSecretOptions_def Let_def DEFAULT_SECRET_MODE_def
        split: option.splits)
  have a: "toLowerCase (''custom.'' @ k) \<notin> set (scan_allowList ?o)"
    using allow by (simp add: normalizeSecretOptions_def Let_def)
  have "enforceSecretPolicy k (''custom.'' @ k) ?o = Inl (BlockedKeyword (''custom.'' @ k) kw)"
    using f kw m a by (simp add: enforceSecretPolicy_def)
  then have "scan_entries ((k, v) # rest) ?o ''custom'' = Inl (BlockedKeyword (''custom.'' @ k) kw)"
    using safe by (simp add: ensureSafePropertyName_def PROHIBITED_PROPERTY_NAMES_def)
  then show ?thesis
    using before by (simp add: scan_entries_append)
qed

lemma root_key_allowed:
  assumes allow: "sopt = Some s" "allowList s = Some al" "(''custom.'' @ k) \<in> set al"
  shows "enforceSecretPolicy k (''custom.'' @ k) (normalizeSecretOptions sopt) = Inr []"
proof -
  from allow have "toLowerCase (''custom.'' @ k) \<in> set (scan_allowList (normalizeSecretOptions sopt))"
    by (simp add: normalizeSecretOptions_def Let_def)
  then show ?thesis
    by (simp add: enforceSecretPolicy_def split: option.splits)
qed

lemma root_key_suppressed:
  assumes allow: "sopt = Some s" "allowList s = Some al" "(''custom.'' @ k) \<in> set al"
    and safe: "k \<noteq> ''__proto__''" "k \<noteq> ''prototype''" "k \<noteq> ''constructor''"
    and before: "scan_entries before (normalizeSecretOptions sopt) ''custom'' = Inr w0"
    and child: "scanConfigForSecurityViolations v (normalizeSecretOptions sopt) (''custom.'' @ k) = Inr w1"
    and rest: "scan_entries rest (normalizeSecretOptions sopt) ''custom'' = Inr w2"
  shows "scanConfigForSecurityViolations (CObj (before @ (k, v) # rest))
           (normalizeSecretOptions sopt) ''custom'' = Inr (w0 @ w1 @ w2)"
proof -
  have "enforceSecretPolicy k (''custom.'' @ k) (normalizeSecretOptions sopt) = Inr []"
    using allow by (rule root_key_allowed)
  then have "scan_entries ((k, v) # rest) (normalizeSecretOptions sopt) ''custom'' = Inr (w1 @ w2)"
    using safe child rest by (simp add: ensureSafePropertyName_def PROHIBITED_PROPERTY_NAMES_def)
  then show ?thesis
    using before by (simp add: scan_entries_append)
qed

text \<open>
  C9 (as amended). \<^verbatim>\<open>enforceSecurityOnConfig\<close> scans the tree under the path \<^verbatim>\<open>custom\<close> and
  rethrows the scan's error. When the scan returns, it calls the verifier with
  \<^verbatim>\<open>jwt ?? {}\<close> exactly when \<^verbatim>\<open>jwt.required\<close> is true, or \<^verbatim>\<open>jwt.token\<close> is a non-empty string,
  or \<^verbatim>\<open>jwt.token\<close> is undefined and \<^verbatim>\<open>process.env\<close> at the name
  \<^verbatim>\<open>jwt.tokenEnvName ?? 'ASTRO_BUILD_TIME_TOKEN'\<close>, the name being non-empty, is neither
  undefined nor the empty string; otherwise it returns \<^verbatim>\<open>null\<close> with the warnings of the scan.
  A key \<open>k\<close> of the root, at any position, that contains the blocklist entry \<open>kw\<close> is reported
  at \<^verbatim>\<open>custom.k\<close> when the entries before it raise nothing, \<open>k\<close> is no prohibited name, the
  mode is not \<^verbatim>\<open>warn\<close> and the allow-list does not hold \<^verbatim>\<open>custom.k\<close>. With the allow-list entry
  \<^verbatim>\<open>custom.k\<close> the key raises nothing and prints nothing: the scan of the root gives the
  warnings of the entries before it, of its value and of the entries after it.
\<close>

theorem security_gate:
  "(\<forall>e. scanConfigForSecurityViolations cfg (normalizeSecretOptions (secrets so)) ''custom'' = Inl e
        \<longrightarrow> enforceSecurityOnConfig rt cfg so now = Inl e)
   \<and> (\<forall>w. scanConfigForSecurityViolations cfg (normalizeSecretOptions (secrets so)) ''custom'' = Inr w
        \<longrightarrow> enforceSecurityOnConfig rt cfg so now
            = (if (case jwt so of
                     None \<Rightarrow> process_env rt ''ASTRO_BUILD_TIME_TOKEN'' \<noteq> EnvUndefined
                              \<and> process_env rt ''ASTRO_BUILD_TIME_TOKEN'' \<noteq> EnvString []
                   | Some j \<Rightarrow>
                       required j = Some True
                       \<or> (case token j of
                             Some t \<Rightarrow> t \<noteq> []
                           | None \<Rightarrow>
                               (case tokenEnvName j of
                                  None \<Rightarrow> process_env rt ''ASTRO_BUILD_TIME_TOKEN'' \<noteq> EnvUndefined
                                           \<and> process_env rt ''ASTRO_BUILD_TIME_TOKEN'' \<noteq> EnvString []
                                | Some n \<Rightarrow> n \<noteq> [] \<and> process_env rt n \<noteq> EnvUndefined
                                           \<and> process_env rt n \<noteq> EnvString [])))
               then (case verifyJwtToken rt
                            (case jwt so of None \<Rightarrow> empty_jwt_options | Some j \<Rightarrow> j) now of
                       Inl e \<Rightarrow> Inl e
                     | Inr r \<Rightarrow> Inr (w, Some r))
               else Inr (w, None)))
   \<and> (scan_entries before (normalizeSecretOptions (secrets so)) ''custom'' = Inr w0
        \<and> k \<noteq> ''__proto__'' \<and> k \<noteq> ''prototype'' \<and> k \<noteq> ''constructor''
        \<and> List.find (\<lambda>b. str_includes (toLowerCase k) b)
              (DEFAULT_SECRET_BLOCKLIST
                 @ map toLowerCase (case secrets so of None \<Rightarrow> []
                     | Some s \<Rightarrow> (case blocklist s of None \<Rightarrow> [] | Some b \<Rightarrow> b))) = Some kw
        \<and> kw \<noteq> []
        \<and> (case secrets so of None \<Rightarrow> True | Some s \<Rightarrow> mode s \<noteq> Some Warn)
        \<and> toLowerCase (''custom.'' @ k)
            \<notin> toLowerCase ` set (case secrets so of None \<Rightarrow> []
                  | Some s \<Rightarrow> (case allowList s of None \<Rightarrow> [] | Some a \<Rightarrow> a))
      \<longrightarrow> enforceSecurityOnConfig rt (CObj (before @ (k, v) # rest)) so now
            = Inl (BlockedKeyword (''custom.'' @ k) kw)
          \<and> error_message (BlockedKeyword (''custom.'' @ k) kw)
            = ''Config property '' @ dq @ ''custom.'' @ k @ dq @ '' matched blocked keyword ''
                @ dq @ kw @ dq
                @ ''. If this property intentionally carries a secret, list it under security.secrets.allowList.'')
   \<and> (secrets so = Some s \<and> allowList s = Some al \<and> (''custom.'' @ k) \<in> set al
      \<longrightarrow> enforceSecretPolicy k (''custom.'' @ k) (normalizeSecretOptions (secrets so)) = Inr [])
   \<and> (secrets so = Some s \<and> allowList s = Some al \<and> (''custom.'' @ k) \<in> set al
        \<and> k \<noteq> ''__proto__'' \<and> k \<noteq> ''prototype'' \<and> k \<noteq> ''constructor''
        \<and> scan_entries before (normalizeSecretOptions (secrets so)) ''custom'' = Inr w0
        \<and> scanConfigForSecurityViolations v (normalizeSecretOptions (secrets so)) (''custom.'' @ k) = Inr w1
        \<and> scan_entries rest (normalizeSecretOptions (secrets so)) ''custom'' = Inr w2
      \<longrightarrow> scanConfigForSecurityViolations (CObj (before @ (k, v) # rest))
             (normalizeSecretOptions (secrets so)) ''custom'' = Inr (w0 @ w1 @ w2))"
proof (intro conjI allI impI)
  fix e
  assume "scanConfigForSecurityViolations cfg (normalizeSecretOptions (secrets so)) ''custom'' = Inl e"
  then show "enforceSecurityOnConfig rt cfg so now = Inl e"
    by (simp add: enforceSecurityOnConfig_def)
next
  fix w
  assume w: "scanConfigForSecurityViolations cfg (normalizeSecretOptions (secrets so)) ''custom'' = Inr w"
  show "enforceSecurityOnConfig rt cfg so now
            = (if (case jwt so of
                     None \<Rightarrow> process_env rt ''ASTRO_BUILD_TIME_TOKEN'' \<noteq> EnvUndefined
                              \<and> process_env rt ''ASTRO_BUILD_TIME_TOKEN'' \<noteq> EnvString []
                   | Some j \<Rightarrow>
                       required j = Some True
                       \<or> (case token j of
                             Some t \<Rightarrow> t \<noteq> []
                           | None \<Rightarrow>
                               (case tokenEnvName j of
                                  None \<Rightarrow> process_env rt ''ASTRO_BUILD_TIME_TOKEN'' \<noteq> EnvUndefined
                                           \<and> process_env rt ''ASTRO_BUILD_TIME_TOKEN'' \<noteq> EnvString []
                                | Some n \<Rightarrow> n \<noteq> [] \<and> process_env rt n \<noteq> EnvUndefined
                                           \<and> process_env rt n \<noteq> EnvString [])))
               then (case verifyJwtToken rt
                            (case jwt so of None \<Rightarrow> empty_jwt_options | Some j \<Rightarrow> j) now of
                       Inl e \<Rightarrow> Inl e
                     | Inr r \<Rightarrow> Inr (w, Some r))
               else Inr (w, None))"
    unfolding shouldValidateJwt_iff[symmetric] by (simp add: enforceSecurityOnConfig_def w Let_def)
next
  assume h: "scan_entries before (normalizeSecretOptions (secrets so)) ''custom'' = Inr w0
        \<and> k \<noteq> ''__proto__'' \<and> k \<noteq> ''prototype'' \<and> k \<noteq> ''constructor''
        \<and> List.find (\<lambda>b. str_includes (toLowerCase k) b)
              (DEFAULT_SECRET_BLOCKLIST
                 @ map toLowerCase (case secrets so of None \<Rightarrow> []
                     | Some s \<Rightarrow> (case blocklist s of None \<Rightarrow> [] | Some b \<Rightarrow> b))) = Some kw
        \<and> kw \<noteq> []
        \<and> (case secrets so of None \<Rightarrow> True | Some s \<Rightarrow> mode s \<noteq> Some Warn)
        \<and> toLowerCase (''custom.'' @ k)
            \<notin> toLowerCase ` set (case secrets so of None \<Rightarrow> []
                  | Some s \<Rightarrow> (case allowList s of None \<Rightarrow> [] | Some a \<Rightarrow> a))"
  then have "scanConfigForSecurityViolations (CObj (before @ (k, v) # rest))
      (normalizeSecretOptions (secrets so)) ''custom'' = Inl (BlockedKeyword (''custom.'' @ k) kw)"
    by (intro root_key_blocked) simp_all
  then show "enforceSecurityOnConfig rt (CObj (before @ (k, v) # rest)) so now
            = Inl (BlockedKeyword (''custom.'' @ k) kw)"
    by (simp add: enforceSecurityOnConfig_def)
next
  show "error_message (BlockedKeyword (''custom.'' @ k) kw)
            = ''Config property '' @ dq @ ''custom.'' @ k @ dq @ '' matched blocked keyword ''
                @ dq @ kw @ dq
                @ ''. If this property intentionally carries a secret, list it under security.secrets.allowList.''"
    by (simp add: blocked_message_def)
next
  assume "secrets so = Some s \<and> allowList s = Some al \<and> (''custom.'' @ k) \<in> set al"
  then show "enforceSecretPolicy k (''custom.'' @ k) (normalizeSecretOptions (secrets so)) = Inr []"
    by (intro root_key_allowed[of _ s al]) simp_all
next
  assume "secrets so = Some s \<and> allowList s = Some al \<and> (''custom.'' @ k) \<in> set al
        \<and> k \<noteq> ''__proto__'' \<and> k \<noteq> ''prototype'' \<and> k \<noteq> ''constructor''
        \<and> scan_entries before (normalizeSecretOptions (secrets so)) ''custom'' = Inr w0
        \<and> scanConfigForSecurityViolations v (normalizeSecretOptions (secrets so)) (''custom.'' @ k) = Inr w1
        \<and> scan_entries rest (normalizeSecretOptions (secrets so)) ''custom'' = Inr w2"
  then show "scanConfigForSecurityViolations (CObj (before @ (k, v) # rest))
             (normalizeSecretOptions (secrets so)) ''custom'' = Inr (w0 @ w1 @ w2)"
    by (elim conjE, intro root_key_suppressed[of _ s al]) simp_all
qed

theorem security_gate_witness:
  "enforceSecurityOnConfig (example_runtime no_environment) api_secret_config
       empty_security_options example_now
     = Inl (BlockedKeyword ''custom.apiSecret'' ''secret'')
   \<and> enforceSecurityOnConfig (example_runtime no_environment)
        (CObj [(''featureFlag'', CBool True), (''apiSecret'', CStr ''x''), (''n'', CNum 1)])
        empty_security_options example_now
     = Inl (BlockedKeyword ''custom.apiSecret'' ''secret'')
   \<and> error_message (BlockedKeyword ''custom.apiSecret'' ''secret'')
     = ''Config property '' @ dq @ ''custom.apiSecret'' @ dq @ '' matched blocked keyword ''
         @ dq @ ''secret'' @ dq
         @ ''. If this property intentionally carries a secret, list it under security.secrets.allowList.''
   \<and> enforceSecretPolicy ''apiSecret'' ''custom.apiSecret''
        (normalizeSecretOptions (secrets allow_api_secret)) = Inr []
   \<and> scanConfigForSecurityViolations
        (CObj [(''featureFlag'', CBool True), (''apiSecret'', CStr ''x''), (''n'', CNum 1)])
        (normalizeSecretOptions (secrets allow_api_secret)) ''custom'' = Inr []
   \<and> enforceSecurityOnConfig (example_runtime no_environment) api_secret_config
       allow_api_secret example_now = Inr ([], None)
   \<and> enforceSecurityOnConfig (example_runtime example_environment) api_secret_config
       allow_api_secret example_now = Inr ([], Some (example_header, example_payload))
   \<and> enforceSecurityOnConfig (example_runtime no_environment) feature_config
       \<lparr>jwt = Some (empty_jwt_options\<lparr>required := Some True\<rparr>), secrets = None\<rparr> example_now
     = Inl (MissingToken ''ASTRO_BUILD_TIME_TOKEN'')
   \<and> enforceSecurityOnConfig (example_runtime no_environment) feature_config
       \<lparr>jwt = Some (empty_jwt_options\<lparr>tokenEnvName := Some ''constructor''\<rparr>), secrets = None\<rparr>
       example_now
     = Inl (MissingSecret ''ASTRO_BUILD_TIME_SECRET'')
   \<and> enforceSecurityOnConfig (example_runtime example_environment) feature_config
       \<lparr>jwt = Some (empty_jwt_options\<lparr>tokenEnvName := Some []\<rparr>), secrets = None\<rparr> example_now
     = Inr ([], None)"
proof -
  let ?rt = "example_runtime no_environment"
  let ?rt' = "example_runtime example_environment"
  let ?three = "CObj [(''featureFlag'', CBool True), (''apiSecret'', CStr ''x''), (''n'', CNum 1)]"
  let ?required = "\<lparr>jwt = Some (empty_jwt_options\<lparr>required := Some True\<rparr>), secrets = None\<rparr>"
  let ?inherited = "\<lparr>jwt = Some (empty_jwt_options\<lparr>tokenEnvName := Some ''constructor''\<rparr>), secrets = None\<rparr>"
  let ?noname = "\<lparr>jwt = Some (empty_jwt_options\<lparr>tokenEnvName := Some []\<rparr>), secrets = None\<rparr>"
  note blocked = security_gate[THEN conjunct2, THEN conjunct2, THEN conjunct1, rule_format]
  note gate = security_gate[THEN conjunct2, THEN conjunct1, rule_format]
  note allowed = security_gate[THEN conjunct2, THEN conjunct2, THEN conjunct2, THEN conjunct1, rule_format]
  note suppressed = security_gate[THEN conjunct2, THEN conjunct2, THEN conjunct2, THEN conjunct2, rule_format]
  have f: "List.find (\<lambda>b. str_includes (toLowerCase ''apiSecret'') b)
              (DEFAULT_SECRET_BLOCKLIST
                 @ map toLowerCase (case secrets empty_security_options of None \<Rightarrow> []
                     | Some s \<Rightarrow> (case blocklist s of None \<Rightarrow> [] | Some b \<Rightarrow> b))) = Some ''secret''"
    by code_simp
  have m: "case secrets empty_security_options of None \<Rightarrow> True | Some s \<Rightarrow> mode s \<noteq> Some Warn"
    by (simp add: empty_security_options_def)
  have al: "toLowerCase (''custom.'' @ ''apiSecret'')
      \<notin> toLowerCase ` set (case secrets empty_security_options of None \<Rightarrow> []
            | Some s \<Rightarrow> (case allowList s of None \<Rightarrow> [] | Some a \<Rightarrow> a))"
    by (simp add: empty_security_options_def)
  have b0: "scan_entries [] (normalizeSecretOptions (secrets empty_security_options)) ''custom'' = Inr []"
    by simp
  have b1: "scan_entries [(''featureFlag'', CBool True)]
      (normalizeSecretOptions (secrets empty_security_options)) ''custom'' = Inr []"
    by code_simp
  have a1: "enforceSecurityOnConfig ?rt api_secret_config empty_security_options example_now
     = Inl (BlockedKeyword ''custom.apiSecret'' ''secret'')"
    using blocked[where before = "[]" and so = empty_security_options and k = "''apiSecret''"
        and kw = "''secret''" and v = "CStr ''x''" and rest = "[]" and rt = ?rt and now = example_now,
        THEN conjunct1] b0 f m al
    by (simp add: api_secret_config_def)
  have a2: "enforceSecurityOnConfig ?rt ?three empty_security_options example_now
     = Inl (BlockedKeyword ''custom.apiSecret'' ''secret'')"
    using blocked[where before = "[(''featureFlag'', CBool True)]" and so = empty_security_options
        and k = "''apiSecret''" and kw = "''secret''" and v = "CStr ''x''"
        and rest = "[(''n'', CNum 1)]" and rt = ?rt and now = example_now, THEN conjunct1] b1 f m al
    by simp
  have a3: "error_message (BlockedKeyword ''custom.apiSecret'' ''secret'')
     = ''Config property '' @ dq @ ''custom.apiSecret'' @ dq @ '' matched blocked keyword ''
         @ dq @ ''secret'' @ dq
         @ ''. If this property intentionally carries a secret, list it under security.secrets.allowList.''"
    using blocked[where before = "[]" and so = empty_security_options and k = "''apiSecret''"
        and kw = "''secret''" and v = "CStr ''x''" and rest = "[]" and rt = ?rt and now = example_now,
        THEN conjunct2] b0 f m al
    by simp
  have s: "secrets allow_api_secret
      = Some \<lparr>blocklist = None, allowList = Some [''custom.apiSecret''], mode = None\<rparr>"
    by (simp add: allow_api_secret_def)
  have b: "enforceSecretPolicy ''apiSecret'' ''custom.apiSecret''
        (normalizeSecretOptions (secrets allow_api_secret)) = Inr []"
    using allowed[where so = allow_api_secret and k = "''apiSecret''"
        and al = "[''custom.apiSecret'']"
        and s = "\<lparr>blocklist = None, allowList = Some [''custom.apiSecret''], mode = None\<rparr>"] s
    by simp
  have c1: "scan_entries [(''featureFlag'', CBool True)]
      (normalizeSecretOptions (secrets allow_api_secret)) ''custom'' = Inr []"
    by code_simp
  have c2: "scanConfigForSecurityViolations (CStr ''x'')
      (normalizeSecretOptions (secrets allow_api_secret)) (''custom.'' @ ''apiSecret'') = Inr []"
    by simp
  have c3: "scan_entries [(''n'', CNum 1)]
      (normalizeSecretOptions (secrets allow_api_secret)) ''custom'' = Inr []"
    by code_simp
  have c: "scanConfigForSecurityViolations ?three
      (normalizeSecretOptions (secrets allow_api_secret)) ''custom'' = Inr []"
    using suppressed[where so = allow_api_secret and k = "''apiSecret''"
        and al = "[''custom.apiSecret'']" and before = "[(''featureFlag'', CBool True)]"
        and v = "CStr ''x''" and rest = "[(''n'', CNum 1)]"
        and s = "\<lparr>blocklist = None, allowList = Some [''custom.apiSecret''], mode = None\<rparr>"
        and ?w0.0 = "[]" and ?w1.0 = "[]" and ?w2.0 = "[]"] s c1 c2 c3
    by simp
  have sc: "scanConfigForSecurityViolations api_secret_config
      (normalizeSecretOptions (secrets allow_api_secret)) ''custom'' = Inr []"
    by code_simp
  have e0: "process_env ?rt ''ASTRO_BUILD_TIME_TOKEN'' = EnvUndefined"
    by code_simp
  have d1: "enforceSecurityOnConfig ?rt api_secret_config allow_api_secret example_now = Inr ([], None)"
    using gate[OF sc, of ?rt example_now] e0
    by (simp add: allow_api_secret_def)
  have e1: "process_env ?rt' ''ASTRO_BUILD_TIME_TOKEN'' = EnvString example_token"
    by code_simp
  have t: "example_token \<noteq> []"
    by code_simp
  have v: "verifyJwtToken ?rt' empty_jwt_options example_now
      = Inr (example_header, example_payload)"
    by code_simp
  have d2: "enforceSecurityOnConfig ?rt' api_secret_config
       allow_api_secret example_now = Inr ([], Some (example_header, example_payload))"
    using gate[OF sc, of ?rt' example_now] e1 t v
    by (simp add: allow_api_secret_def)
  have sf: "scanConfigForSecurityViolations feature_config
      (normalizeSecretOptions (secrets so)) ''custom'' = Inr []"
    if "secrets so = None" for so
    unfolding that by code_simp
  have v3: "verifyJwtToken ?rt (empty_jwt_options\<lparr>required := Some True\<rparr>) example_now
      = Inl (MissingToken ''ASTRO_BUILD_TIME_TOKEN'')"
    by code_simp
  have d3: "enforceSecurityOnConfig ?rt feature_config ?required example_now
      = Inl (MissingToken ''ASTRO_BUILD_TIME_TOKEN'')"
    using gate[where so = ?required and cfg = feature_config and rt = ?rt and now = example_now,
        OF sf] v3
    by (simp add: empty_jwt_options_def)
  have e4: "process_env ?rt ''constructor'' = EnvInherited"
    by code_simp
  have v4: "verifyJwtToken ?rt (empty_jwt_options\<lparr>tokenEnvName := Some ''constructor''\<rparr>) example_now
      = Inl (MissingSecret ''ASTRO_BUILD_TIME_SECRET'')"
    by code_simp
  have d4: "enforceSecurityOnConfig ?rt feature_config ?inherited example_now
      = Inl (MissingSecret ''ASTRO_BUILD_TIME_SECRET'')"
    using gate[where so = ?inherited and cfg = feature_config and rt = ?rt and now = example_now,
        OF sf] e4 v4
    by (simp add: empty_jwt_options_def)
  have d5: "enforceSecurityOnConfig ?rt' feature_config ?noname example_now = Inr ([], None)"
    using gate[where so = ?noname and cfg = feature_config and rt = ?rt' and now = example_now,
        OF sf]
    by (simp add: empty_jwt_options_def)
  from a1 a2 a3 b c d1 d2 d3 d4 d5 show ?thesis by simp
qed

text \<open>
  An explicit empty token hides the token of the environment: the environment holds a
  well-signed token under the default name, \<^verbatim>\<open>jwt.required\<close> is unset, and the gate returns
  \<^verbatim>\<open>null\<close> without calling the verifier, which would have thrown on the empty token.
\<close>

theorem security_gate_shadowing_counterexample:
  "process_env (example_runtime example_environment) ''ASTRO_BUILD_TIME_TOKEN''
     = EnvString example_token
   \<and> example_token \<noteq> []
   \<and> verifyJwtToken (example_runtime example_environment) empty_jwt_options example_now
     = Inr (example_header, example_payload)
   \<and> verifyJwtToken (example_runtime example_environment)
        (empty_jwt_options\<lparr>token := Some []\<rparr>) example_now
     = Inl (MissingToken ''ASTRO_BUILD_TIME_TOKEN'')
   \<and> enforceSecurityOnConfig (example_runtime example_environment) feature_config
        \<lparr>jwt = Some (empty_jwt_options\<lparr>token := Some []\<rparr>), secrets = None\<rparr> example_now
     = Inr ([], None)"
  by code_simp

section \<open>Claims about the token verifier\<close>

lemma str_split_no_sep: "sep \<notin> set s \<Longrightarrow> str_split sep s = [s]"
  by (induction s) auto

lemma str_split_append_sep:
  "sep \<notin> set a \<Longrightarrow> str_split sep (a @ sep # b) = a # str_split sep b"
  by (induction a) auto

lemma str_split_three:
  "sep \<notin> set h \<Longrightarrow> sep \<notin> set p \<Longrightarrow> sep \<notin> set s \<Longrightarrow>
     str_split sep (h @ [sep] @ p @ [sep] @ s) = [h, p, s]"
  by (simp add: str_split_append_sep str_split_no_sep)

lemma str_split_not_Nil: "str_split sep t \<noteq> []"
  by (induction t) (auto split: list.splits)

lemma str_split_segments_no_sep: "x \<in> set (str_split sep t) \<Longrightarrow> sep \<notin> set x"
proof (induction t arbitrary: x)
  case Nil
  then show ?case by simp
next
  case (Cons c cs)
  show ?case
  proof (cases "c = sep")
    case True
    with Cons show ?thesis by auto
  next
    case False
    obtain y ys where ys: "str_split sep cs = y # ys"
      using str_split_not_Nil[of sep cs] by (cases "str_split sep cs") auto
    with False Cons.prems have "x = c # y \<or> x \<in> set ys" by simp
    then show ?thesis
    proof
      assume "x = c # y"
      with False Cons.IH[of y] ys show ?thesis by simp
    next
      assume "x \<in> set ys"
      with Cons.IH[of x] ys show ?thesis by simp
    qed
  qed
qed

lemma str_split_with_sep: "sep \<in> set x \<Longrightarrow> \<exists>a b rest. str_split sep x = a # b # rest"
proof (induction x)
  case Nil
  then show ?case by simp
next
  case (Cons c cs)
  show ?case
  proof (cases "c = sep")
    case True
    obtain y ys where "str_split sep cs = y # ys"
      using str_split_not_Nil[of sep cs] by (cases "str_split sep cs") auto
    with True show ?thesis by simp
  next
    case False
    with Cons obtain a b rest where "str_split sep cs = a # b # rest" by auto
    with False show ?thesis by simp
  qed
qed

lemma validateJwtClaims_not_format: "validateJwtClaims payload options now \<noteq> Inl InvalidFormat"
  by (simp add: validateJwtClaims_def null_read_def Let_def split: option.splits)

lemma verifySegments_not_format:
  "verifySegments rt options now sec allowed h p s \<noteq> Inl InvalidFormat"
  by (auto simp: verifySegments_def parseJwtSegment_def createHmacSignature_def null_read_def
      validateJwtClaims_not_format Let_def split: sum.splits option.splits env_value.splits)

lemma find_unsupported_None:
  "\<forall>alg\<in>set allowed. HASH_ALGORITHM_BY_JWT_ALG alg \<noteq> None \<Longrightarrow>
     List.find (\<lambda>alg. HASH_ALGORITHM_BY_JWT_ALG alg = None) allowed = None"
  by (simp add: find_None_iff)

lemma verify_reaches_segments:
  assumes "resolved_token (resolveJwtInputs rt options) = EnvString tok" "tok \<noteq> []"
    and "resolved_secret (resolveJwtInputs rt options) = EnvString sec" "sec \<noteq> []"
    and "\<forall>alg\<in>set (allowed_algorithms options). HASH_ALGORITHM_BY_JWT_ALG alg \<noteq> None"
    and "str_split (CHR ''.'') tok = [h, p, s]"
  shows "verifyJwtToken rt options now
           = verifySegments rt options now (EnvString sec) (allowed_algorithms options) h p s"
  using assms by (simp add: verifyJwtToken_def Let_def find_unsupported_None)

lemma verifySegments_Inr_D:
  assumes "verifySegments rt options now sec allowed h p s = Inr r"
  shows "\<exists>header alg payload. parseJwtSegment rt h ''header'' = Inr header
           \<and> get_prop header ''alg'' = Some (JStr alg) \<and> alg \<in> set allowed
           \<and> createHmacSignature rt (h @ ''.'' @ p) sec alg = Inr (base64UrlDecode s)
           \<and> parseJwtSegment rt p ''payload'' = Inr payload
           \<and> validateJwtClaims payload options now = Inr ()
           \<and> r = (header, payload)"
proof -
  from assms obtain header where header: "parseJwtSegment rt h ''header'' = Inr header" "header \<noteq> JNull"
    by (auto simp: verifySegments_def split: sum.splits if_splits)
  from assms header obtain alg where alg: "string_value (get_prop header ''alg'') = Some alg" "alg \<in> set allowed"
    by (auto simp: verifySegments_def split: option.splits if_splits)
  from alg(1) have galg: "get_prop header ''alg'' = Some (JStr alg)"
    by (cases "get_prop header ''alg''" rule: string_value.cases) auto
  from assms header alg obtain expected where
    expected: "createHmacSignature rt (h @ ''.'' @ p) sec alg = Inr expected"
    by (auto simp: verifySegments_def Let_def split: sum.splits)
  from assms header alg expected have eq: "expected = base64UrlDecode s"
    by (auto simp: verifySegments_def Let_def timingSafeEqual_def split: if_splits)
  from assms header alg expected eq obtain payload where
    payload: "parseJwtSegment rt p ''payload'' = Inr payload"
    by (auto simp: verifySegments_def Let_def timingSafeEqual_def split: sum.splits)
  from assms header alg expected eq payload have
    "validateJwtClaims payload options now = Inr ()" "r = (header, payload)"
    by (auto simp: verifySegments_def Let_def timingSafeEqual_def split: sum.splits)
  with header galg alg expected eq payload show ?thesis by blast
qed

lemma createHmacSignature_Inr_D:
  "createHmacSignature rt input sec alg = Inr mac \<Longrightarrow> \<exists>key. sec = EnvString key"
  by (auto simp: createHmacSignature_def split: option.splits env_value.splits)

lemma verify_Inr_D:
  assumes "verifyJwtToken rt options now = Inr r"
  shows "\<exists>tok sec h p s. resolved_token (resolveJwtInputs rt options) = EnvString tok \<and> tok \<noteq> []
           \<and> resolved_secret (resolveJwtInputs rt options) = EnvString sec \<and> sec \<noteq> []
           \<and> (\<forall>alg\<in>set (allowed_algorithms options). HASH_ALGORITHM_BY_JWT_ALG alg \<noteq> None)
           \<and> str_split (CHR ''.'') tok = [h, p, s]
           \<and> verifySegments rt options now (EnvString sec) (allowed_algorithms options) h p s = Inr r"
proof -
  let ?r = "resolveJwtInputs rt options"
  from assms have truthy: "truthy_env (resolved_token ?r)" "truthy_env (resolved_secret ?r)"
    by (auto simp: verifyJwtToken_def Let_def split: if_splits)
  with assms have algs: "\<forall>alg\<in>set (allowed_algorithms options). HASH_ALGORITHM_BY_JWT_ALG alg \<noteq> None"
    by (auto simp: verifyJwtToken_def Let_def find_None_iff split: option.splits)
  from assms truthy algs obtain tok where tok: "resolved_token ?r = EnvString tok"
    by (cases "resolved_token ?r") (auto simp: verifyJwtToken_def Let_def find_unsupported_None)
  with truthy have ne: "tok \<noteq> []" by simp
  from assms truthy algs tok obtain h p s where
    split: "str_split (CHR ''.'') tok = [h, p, s]"
    and segs: "verifySegments rt options now (resolved_secret ?r) (allowed_algorithms options) h p s = Inr r"
    by (auto simp: verifyJwtToken_def Let_def find_unsupported_None split: list.splits)
  from verifySegments_Inr_D[OF segs] createHmacSignature_Inr_D obtain sec where
    sec: "resolved_secret ?r = EnvString sec" by blast
  with truthy have "sec \<noteq> []" by simp
  with tok ne sec algs split segs show ?thesis by auto
qed

lemma verifySegments_bad_signature:
  assumes "parseJwtSegment rt h ''header'' = Inr header"
    and "get_prop header ''alg'' = Some (JStr alg)" "alg \<in> set allowed"
    and "createHmacSignature rt (h @ ''.'' @ p) sec alg = Inr expected"
    and "base64UrlDecode s \<noteq> expected"
  shows "verifySegments rt options now sec allowed h p s = Inl SignatureVerificationFailed"
proof -
  from assms(2) have "header \<noteq> JNull" by auto
  with assms show ?thesis
    by (auto simp: verifySegments_def Let_def timingSafeEqual_def)
qed

lemma verifySegments_good:
  assumes "parseJwtSegment rt h ''header'' = Inr header"
    and "get_prop header ''alg'' = Some (JStr alg)" "alg \<in> set allowed"
    and "createHmacSignature rt (h @ ''.'' @ p) sec alg = Inr (base64UrlDecode s)"
    and "parseJwtSegment rt p ''payload'' = Inr payload"
    and "validateJwtClaims payload options now = Inr ()"
  shows "verifySegments rt options now sec allowed h p s = Inr (header, payload)"
proof -
  from assms(2) have "header \<noteq> JNull" by auto
  with assms show ?thesis
    by (simp add: verifySegments_def Let_def timingSafeEqual_def)
qed

lemma resolve_with_token:
  "resolved_token (resolveJwtInputs rt (options\<lparr>token := Some t\<rparr>)) = EnvString t"
  "resolved_secret (resolveJwtInputs rt (options\<lparr>token := Some t\<rparr>))
     = resolved_secret (resolveJwtInputs rt options)"
  "allowed_algorithms (options\<lparr>token := Some t\<rparr>) = allowed_algorithms options"
  by (simp_all add: resolveJwtInputs_def allowed_algorithms_def Let_def)

lemma verify_too_many_segments:
  assumes "resolved_token (resolveJwtInputs rt options) = EnvString tok"
    and "str_split (CHR ''.'') tok = a # b # c # d # rest"
  shows "verifyJwtToken rt options now \<noteq> Inr r"
  using assms
  by (auto simp: verifyJwtToken_def Let_def split: option.splits if_splits)

lemma not_three_segments:
  "length xs \<noteq> 3 \<Longrightarrow> (case xs of [a, b, c] \<Rightarrow> f a b c | _ \<Rightarrow> x) = x"
  by (auto split: list.splits)

lemma three_segments: "length xs = 3 \<Longrightarrow> \<exists>a b c. xs = [a, b, c]"
  by (auto simp: length_Suc_conv numeral_3_eq_3)

lemma parse_empty_segment:
  "JSON_parse rt [] = Inl msg \<Longrightarrow> parseJwtSegment rt [] name = Inl (UnableToParse name msg)"
  by (simp add: parseJwtSegment_def base64UrlDecode_def Buffer_from_base64_def replace_char_def
      padEnd_def buffer_toString_def List.map_filter_simps)

lemma decode_empty_segment: "base64UrlDecode [] = []"
  by (simp add: base64UrlDecode_def Buffer_from_base64_def replace_char_def padEnd_def
      List.map_filter_simps)

text \<open>
  C5 (as amended). With a token and a secret present and only supported algorithms allowed,
  the verifier fails with the format error exactly when splitting the token on \<^verbatim>\<open>.\<close> does
  not give three segments. Whether a segment is empty is not tested at this step: a token
  with an empty segment is still rejected, by the format error or by a later check, as soon
  as \<^verbatim>\<open>JSON.parse\<close> rejects the empty text and the HMAC is not the empty buffer.
\<close>

theorem format_error_iff:
  assumes "resolved_token (resolveJwtInputs rt options) = EnvString tok" "tok \<noteq> []"
    and "resolved_secret (resolveJwtInputs rt options) = EnvString sec" "sec \<noteq> []"
    and "\<forall>alg\<in>set (allowed_algorithms options). HASH_ALGORITHM_BY_JWT_ALG alg \<noteq> None"
  shows "(verifyJwtToken rt options now = Inl InvalidFormat
           \<longleftrightarrow> length (str_split (CHR ''.'') tok) \<noteq> 3)
    \<and> ([] \<in> set (str_split (CHR ''.'') tok)
        \<and> (\<exists>msg. JSON_parse rt [] = Inl msg)
        \<and> (\<forall>h p s. str_split (CHR ''.'') tok = [h, p, s]
              \<longrightarrow> (\<forall>alg\<in>set (allowed_algorithms options).
                    createHmacSignature rt (h @ ''.'' @ p) (EnvString sec) alg \<noteq> Inr []))
       \<longrightarrow> (\<exists>e. verifyJwtToken rt options now = Inl e))"
proof (intro conjI impI)
  show "verifyJwtToken rt options now = Inl InvalidFormat
           \<longleftrightarrow> length (str_split (CHR ''.'') tok) \<noteq> 3"
  proof (cases "length (str_split (CHR ''.'') tok) = 3")
    case True
    then obtain h p s where "str_split (CHR ''.'') tok = [h, p, s]"
      using three_segments by blast
    from verify_reaches_segments[OF assms this] True show ?thesis
      by (simp add: verifySegments_not_format)
  next
    case False
    with assms show ?thesis
      by (simp add: verifyJwtToken_def Let_def find_unsupported_None not_three_segments)
  qed
next
  assume hyp: "[] \<in> set (str_split (CHR ''.'') tok)
        \<and> (\<exists>msg. JSON_parse rt [] = Inl msg)
        \<and> (\<forall>h p s. str_split (CHR ''.'') tok = [h, p, s]
              \<longrightarrow> (\<forall>alg\<in>set (allowed_algorithms options).
                    createHmacSignature rt (h @ ''.'' @ p) (EnvString sec) alg \<noteq> Inr []))"
  then obtain msg where msg: "JSON_parse rt [] = Inl msg" by blast
  show "\<exists>e. verifyJwtToken rt options now = Inl e"
  proof (cases "verifyJwtToken rt options now")
    case (Inl e)
    then show ?thesis by blast
  next
    case (Inr r)
    from verify_Inr_D[OF Inr] assms(1,3) obtain h p s where
      split: "str_split (CHR ''.'') tok = [h, p, s]"
      and segs: "verifySegments rt options now (EnvString sec) (allowed_algorithms options) h p s = Inr r"
      by auto
    from verifySegments_Inr_D[OF segs] obtain header alg payload where
      parsed: "parseJwtSegment rt h ''header'' = Inr header"
        "alg \<in> set (allowed_algorithms options)"
        "createHmacSignature rt (h @ ''.'' @ p) (EnvString sec) alg = Inr (base64UrlDecode s)"
        "parseJwtSegment rt p ''payload'' = Inr payload"
      by blast
    from hyp split have "h = [] \<or> p = [] \<or> s = []" by auto
    then have False
    proof (elim disjE)
      assume "h = []"
      with parsed(1) parse_empty_segment[OF msg] show False by simp
    next
      assume "p = []"
      with parsed(4) parse_empty_segment[OF msg] show False by simp
    next
      assume "s = []"
      with parsed(2,3) hyp split show False by (simp add: decode_empty_segment)
    qed
    then show ?thesis ..
  qed
qed

theorem format_error_iff_witness:
  "verifyJwtToken (example_runtime no_environment)
       (example_options\<lparr>token := Some ''a.b.c.d''\<rparr>) example_now = Inl InvalidFormat
   \<and> verifyJwtToken (example_runtime no_environment)
       (example_options\<lparr>token := Some ''abc''\<rparr>) example_now = Inl InvalidFormat
   \<and> verifyJwtToken (example_runtime no_environment)
       (example_options\<lparr>token := Some ''a.b.c''\<rparr>) example_now \<noteq> Inl InvalidFormat
   \<and> (\<exists>e. verifyJwtToken (example_runtime no_environment)
       (example_options\<lparr>token := Some (example_signing_input @ ''.'')\<rparr>) example_now = Inl e)"
proof -
  let ?rt = "example_runtime no_environment"
  have sec: "\<And>t. resolved_secret (resolveJwtInputs ?rt (example_options\<lparr>token := Some t\<rparr>)) = EnvString ''top-secret''"
    by (simp add: resolveJwtInputs_def example_options_def Let_def)
  have tok: "\<And>t. resolved_token (resolveJwtInputs ?rt (example_options\<lparr>token := Some t\<rparr>)) = EnvString t"
    by (simp add: resolveJwtInputs_def Let_def)
  have algs: "\<And>t. \<forall>alg\<in>set (allowed_algorithms (example_options\<lparr>token := Some t\<rparr>)).
      HASH_ALGORITHM_BY_JWT_ALG alg \<noteq> None"
    by (simp add: allowed_algorithms_def example_options_def empty_jwt_options_def
        HASH_ALGORITHM_BY_JWT_ALG_def)
  have l: "length (str_split (CHR ''.'') ''a.b.c.d'') \<noteq> 3" "length (str_split (CHR ''.'') ''abc'') \<noteq> 3"
    "length (str_split (CHR ''.'') ''a.b.c'') = 3"
    by code_simp+
  have a: "verifyJwtToken ?rt (example_options\<lparr>token := Some ''a.b.c.d''\<rparr>) example_now = Inl InvalidFormat"
    using format_error_iff[OF tok _ sec _ algs, of "''a.b.c.d''" example_now] l by simp
  have b: "verifyJwtToken ?rt (example_options\<lparr>token := Some ''abc''\<rparr>) example_now = Inl InvalidFormat"
    using format_error_iff[OF tok _ sec _ algs, of "''abc''" example_now] l by simp
  have c: "verifyJwtToken ?rt (example_options\<lparr>token := Some ''a.b.c''\<rparr>) example_now \<noteq> Inl InvalidFormat"
    using format_error_iff[OF tok _ sec _ algs, of "''a.b.c''" example_now] l by simp
  have sp: "str_split (CHR ''.'') (example_signing_input @ ''.'')
       = [example_header_segment, example_payload_segment, []]"
    by code_simp
  have "JSON_parse ?rt [] = Inl ''Unexpected end of JSON input''" by code_simp
  then have parse: "\<exists>msg. JSON_parse ?rt [] = Inl msg" by blast
  have al: "allowed_algorithms (example_options\<lparr>token := Some (example_signing_input @ ''.'')\<rparr>) = [''HS256'']"
    by code_simp
  have mac: "createHmacSignature ?rt (example_header_segment @ ''.'' @ example_payload_segment)
      (EnvString ''top-secret'') ''HS256'' \<noteq> Inr []"
    by code_simp
  have d: "\<exists>e. verifyJwtToken ?rt
       (example_options\<lparr>token := Some (example_signing_input @ ''.'')\<rparr>) example_now = Inl e"
    using format_error_iff[OF tok _ sec _ algs, of "example_signing_input @ ''.''" example_now]
      sp parse al mac
    by (simp add: example_signing_input_def)
  from a b c d show ?thesis by simp
qed

theorem empty_segment_counterexample:
  "str_split (CHR ''.'') ''..'' = [[], [], []]
   \<and> verifyJwtToken (example_runtime no_environment)
        (example_options\<lparr>token := Some ''..''\<rparr>) example_now
       = Inl (UnableToParse ''header'' ''Unexpected end of JSON input'')
   \<and> str_split (CHR ''.'') (example_signing_input @ ''.'')
       = [example_header_segment, example_payload_segment, []]
   \<and> verifyJwtToken (example_runtime no_environment)
        (example_options\<lparr>token := Some (example_signing_input @ ''.'')\<rparr>) example_now
       = Inl SignatureVerificationFailed"
  by code_simp

text \<open>
  C1 (as amended). Round trip: for a non-empty secret \<open>S\<close>, an allowed algorithm \<open>A\<close> and a
  payload whose claims pass the checks at \<open>now\<close>, a token \<open>h.p.s\<close> whose header parses to a
  value declaring \<open>A\<close> and whose signature segment decodes to the HMAC of \<open>h.p\<close> under \<open>S\<close>,
  with the hash mapped from \<open>A\<close>, is accepted, and the parsed header and payload are
  returned unchanged.
\<close>

theorem round_trip:
  assumes "resolved_token (resolveJwtInputs rt options) = EnvString (h @ ''.'' @ p @ ''.'' @ s)"
    and "CHR ''.'' \<notin> set h" "CHR ''.'' \<notin> set p" "CHR ''.'' \<notin> set s"
    and "resolved_secret (resolveJwtInputs rt options) = EnvString S" "S \<noteq> []"
    and "\<forall>alg\<in>set (allowed_algorithms options). HASH_ALGORITHM_BY_JWT_ALG alg \<noteq> None"
    and "A \<in> set (allowed_algorithms options)"
    and "parseJwtSegment rt h ''header'' = Inr header"
    and "get_prop header ''alg'' = Some (JStr A)"
    and "HASH_ALGORITHM_BY_JWT_ALG A = Some hashAlgorithm"
    and "base64UrlDecode s = createHmac rt hashAlgorithm S (h @ ''.'' @ p)"
    and "parseJwtSegment rt p ''payload'' = Inr payload"
    and "validateJwtClaims payload options now = Inr ()"
  shows "verifyJwtToken rt options now = Inr (header, payload)"
proof -
  have split: "str_split (CHR ''.'') (h @ ''.'' @ p @ ''.'' @ s) = [h, p, s]"
    using str_split_three[of "CHR ''.''" h p s] assms(2-4) by simp
  have mac: "createHmacSignature rt (h @ ''.'' @ p) (EnvString S) A = Inr (base64UrlDecode s)"
    using assms(11,12) by (simp add: createHmacSignature_def)
  have "verifyJwtToken rt options now
          = verifySegments rt options now (EnvString S) (allowed_algorithms options) h p s"
    using verify_reaches_segments[OF assms(1) _ assms(5,6,7) split] by simp
  also have "\<dots> = Inr (header, payload)"
    by (rule verifySegments_good[OF assms(9,10,8) mac assms(13,14)])
  finally show ?thesis .
qed

theorem round_trip_witness:
  "verifyJwtToken (example_runtime no_environment) example_options example_now
     = Inr (example_header, example_payload)"
proof -
  let ?rt = "example_runtime no_environment"
  have tok: "resolved_token (resolveJwtInputs ?rt example_options)
      = EnvString (example_header_segment @ ''.'' @ example_payload_segment @ ''.'' @ example_signature_segment)"
    by code_simp
  have dots: "CHR ''.'' \<notin> set example_header_segment" "CHR ''.'' \<notin> set example_payload_segment"
    "CHR ''.'' \<notin> set example_signature_segment"
    by code_simp+
  have sec: "resolved_secret (resolveJwtInputs ?rt example_options) = EnvString ''top-secret''"
    by code_simp
  have algs: "\<forall>alg\<in>set (allowed_algorithms example_options). HASH_ALGORITHM_BY_JWT_ALG alg \<noteq> None"
    "''HS256'' \<in> set (allowed_algorithms example_options)"
    by code_simp+
  have hdr: "parseJwtSegment ?rt example_header_segment ''header'' = Inr example_header"
    "get_prop example_header ''alg'' = Some (JStr ''HS256'')"
    "HASH_ALGORITHM_BY_JWT_ALG ''HS256'' = Some ''sha256''"
    by code_simp+
  have mac: "base64UrlDecode example_signature_segment
      = createHmac ?rt ''sha256'' ''top-secret'' (example_header_segment @ ''.'' @ example_payload_segment)"
    by code_simp
  have pl: "parseJwtSegment ?rt example_payload_segment ''payload'' = Inr example_payload"
    by code_simp
  have cl: "validateJwtClaims example_payload example_options example_now = Inr ()"
    by code_simp
  show ?thesis
    by (rule round_trip[OF tok dots sec _ algs hdr mac pl cl]) simp
qed

theorem round_trip_empty_secret_counterexample:
  "base64UrlDecode example_signature_empty_key
     = createHmac (example_runtime no_environment) ''sha256'' [] example_signing_input
   \<and> validateJwtClaims example_payload
        (example_options\<lparr>token := Some (example_signing_input @ ''.'' @ example_signature_empty_key),
           secret := Some []\<rparr>) example_now = Inr ()
   \<and> verifyJwtToken (example_runtime no_environment)
        (example_options\<lparr>token := Some (example_signing_input @ ''.'' @ example_signature_empty_key),
           secret := Some []\<rparr>) example_now
       = Inl (MissingSecret ''ASTRO_BUILD_TIME_SECRET'')"
  by code_simp

text \<open>
  C2. Once the header is parsed and its algorithm is allowed, a signature segment whose
  decoding differs from the recomputed HMAC, in length or in content, gives the one error
  \<^verbatim>\<open>JWT signature verification failed\<close>; the error carries nothing that tells the two
  causes apart.
\<close>

theorem signature_mismatch_single_error:
  assumes "resolved_token (resolveJwtInputs rt options) = EnvString tok"
    and "resolved_secret (resolveJwtInputs rt options) = EnvString sec" "sec \<noteq> []"
    and "\<forall>alg\<in>set (allowed_algorithms options). HASH_ALGORITHM_BY_JWT_ALG alg \<noteq> None"
    and "str_split (CHR ''.'') tok = [h, p, s]"
    and "parseJwtSegment rt h ''header'' = Inr header"
    and "get_prop header ''alg'' = Some (JStr alg)" "alg \<in> set (allowed_algorithms options)"
    and "createHmacSignature rt (h @ ''.'' @ p) (EnvString sec) alg = Inr expected"
    and "length (base64UrlDecode s) \<noteq> length expected \<or> base64UrlDecode s \<noteq> expected"
  shows "verifyJwtToken rt options now = Inl SignatureVerificationFailed
    \<and> error_message SignatureVerificationFailed = ''JWT signature verification failed''"
proof -
  from assms(5) have "tok \<noteq> []" by auto
  from verify_reaches_segments[OF assms(1) this assms(2,3,4,5)]
  have "verifyJwtToken rt options now
          = verifySegments rt options now (EnvString sec) (allowed_algorithms options) h p s" .
  moreover from assms(10) have "base64UrlDecode s \<noteq> expected" by auto
  ultimately show ?thesis
    using verifySegments_bad_signature[OF assms(6,7,8,9)] by simp
qed

theorem signature_mismatch_single_error_witness:
  "length (base64UrlDecode ''zG2X'') \<noteq> length example_mac
   \<and> verifyJwtToken (example_runtime no_environment)
        (example_options\<lparr>token := Some (example_signing_input @ ''.'' @ ''zG2X'')\<rparr>) example_now
       = Inl SignatureVerificationFailed
   \<and> length (base64UrlDecode example_signature_empty_key) = length example_mac
   \<and> verifyJwtToken (example_runtime no_environment)
        (example_options\<lparr>token := Some (example_signing_input @ ''.'' @ example_signature_empty_key)\<rparr>)
        example_now
       = Inl SignatureVerificationFailed"
proof -
  let ?rt = "example_runtime no_environment"
  let ?o1 = "example_options\<lparr>token := Some (example_signing_input @ ''.'' @ ''zG2X'')\<rparr>"
  let ?o2 = "example_options\<lparr>token := Some (example_signing_input @ ''.'' @ example_signature_empty_key)\<rparr>"
  have t1: "resolved_token (resolveJwtInputs ?rt ?o1) = EnvString (example_signing_input @ ''.'' @ ''zG2X'')"
    and t2: "resolved_token (resolveJwtInputs ?rt ?o2)
        = EnvString (example_signing_input @ ''.'' @ example_signature_empty_key)"
    by code_simp+
  have s1: "resolved_secret (resolveJwtInputs ?rt ?o1) = EnvString ''top-secret''"
    and s2: "resolved_secret (resolveJwtInputs ?rt ?o2) = EnvString ''top-secret''"
    by code_simp+
  have a1: "\<forall>alg\<in>set (allowed_algorithms ?o1). HASH_ALGORITHM_BY_JWT_ALG alg \<noteq> None"
    and a2: "\<forall>alg\<in>set (allowed_algorithms ?o2). HASH_ALGORITHM_BY_JWT_ALG alg \<noteq> None"
    and i1: "''HS256'' \<in> set (allowed_algorithms ?o1)"
    and i2: "''HS256'' \<in> set (allowed_algorithms ?o2)"
    by code_simp+
  have sp1: "str_split (CHR ''.'') (example_signing_input @ ''.'' @ ''zG2X'')
      = [example_header_segment, example_payload_segment, ''zG2X'']"
    and sp2: "str_split (CHR ''.'') (example_signing_input @ ''.'' @ example_signature_empty_key)
      = [example_header_segment, example_payload_segment, example_signature_empty_key]"
    by code_simp+
  have hdr: "parseJwtSegment ?rt example_header_segment ''header'' = Inr example_header"
    "get_prop example_header ''alg'' = Some (JStr ''HS256'')"
    by code_simp+
  have mac: "createHmacSignature ?rt (example_header_segment @ ''.'' @ example_payload_segment)
      (EnvString ''top-secret'') ''HS256'' = Inr example_mac"
    by code_simp
  have l1: "length (base64UrlDecode ''zG2X'') \<noteq> length example_mac" by code_simp
  have l2: "length (base64UrlDecode example_signature_empty_key) = length example_mac" by code_simp
  have c2: "base64UrlDecode example_signature_empty_key \<noteq> example_mac" by code_simp
  have r1: "verifyJwtToken ?rt ?o1 example_now = Inl SignatureVerificationFailed"
    using signature_mismatch_single_error[OF t1 s1 _ a1 sp1 hdr i1 mac] l1 by simp
  have r2: "verifyJwtToken ?rt ?o2 example_now = Inl SignatureVerificationFailed"
    using signature_mismatch_single_error[OF t2 s2 _ a2 sp2 hdr i2 mac] c2 by simp
  from l1 l2 r1 r2 show ?thesis by simp
qed

text \<open>
  C3 (as amended). For an accepted token, flipping a bit of its signature segment gives a
  token that is rejected whenever the flip changes the bytes the segment decodes to.
\<close>

theorem flipped_signature_rejected:
  assumes "verifyJwtToken rt options now = Inr r"
    and "resolved_token (resolveJwtInputs rt options) = EnvString tok"
    and "str_split (CHR ''.'') tok = [h, p, s]"
    and "base64UrlDecode (flip_segment_bit s j i) \<noteq> base64UrlDecode s"
  shows "\<exists>e. verifyJwtToken rt
                (options\<lparr>token := Some (h @ ''.'' @ p @ ''.'' @ flip_segment_bit s j i)\<rparr>) now = Inl e"
proof -
  let ?s' = "flip_segment_bit s j i"
  let ?tok' = "h @ ''.'' @ p @ ''.'' @ ?s'"
  let ?options' = "options\<lparr>token := Some ?tok'\<rparr>"
  from verify_Inr_D[OF assms(1)] assms(2,3) obtain sec where
    sec: "resolved_secret (resolveJwtInputs rt options) = EnvString sec" "sec \<noteq> []"
    and algs: "\<forall>alg\<in>set (allowed_algorithms options). HASH_ALGORITHM_BY_JWT_ALG alg \<noteq> None"
    and segs: "verifySegments rt options now (EnvString sec) (allowed_algorithms options) h p s = Inr r"
    by auto
  from verifySegments_Inr_D[OF segs] obtain header alg where
    header: "parseJwtSegment rt h ''header'' = Inr header"
    "get_prop header ''alg'' = Some (JStr alg)" "alg \<in> set (allowed_algorithms options)"
    and mac: "createHmacSignature rt (h @ ''.'' @ p) (EnvString sec) alg = Inr (base64UrlDecode s)"
    by blast
  from assms(3) str_split_segments_no_sep[of _ "CHR ''.''" tok]
  have nodots: "CHR ''.'' \<notin> set h" "CHR ''.'' \<notin> set p" by auto
  have prefix: "str_split (CHR ''.'') ?tok' = h # p # str_split (CHR ''.'') ?s'"
    using nodots str_split_append_sep[of "CHR ''.''" h "p @ ''.'' @ ?s'"]
      str_split_append_sep[of "CHR ''.''" p ?s'] by simp
  show ?thesis
  proof (cases "CHR ''.'' \<in> set ?s'")
    case False
    then have split': "str_split (CHR ''.'') ?tok' = [h, p, ?s']"
      using prefix by (simp add: str_split_no_sep)
    have "verifyJwtToken rt ?options' now
        = verifySegments rt ?options' now (EnvString sec) (allowed_algorithms ?options') h p ?s'"
      using verify_reaches_segments[where rt = rt and options = "?options'" and tok = "?tok'"
          and sec = sec and h = h and p = p and s = "?s'" and now = now] sec algs split'
      by (simp add: resolve_with_token)
    also have "\<dots> = Inl SignatureVerificationFailed"
      by (rule verifySegments_bad_signature[OF header(1,2) _ mac assms(4)])
        (simp add: resolve_with_token header(3))
    finally show ?thesis by blast
  next
    case True
    then obtain a b rest where "str_split (CHR ''.'') ?s' = a # b # rest"
      using str_split_with_sep by blast
    with prefix have four: "str_split (CHR ''.'') ?tok' = h # p # a # b # rest" by simp
    have "\<And>x. verifyJwtToken rt ?options' now \<noteq> Inr x"
      by (rule verify_too_many_segments[OF _ four]) (simp add: resolve_with_token)
    then show ?thesis
      by (cases "verifyJwtToken rt ?options' now") auto
  qed
qed

theorem flipped_signature_rejected_witness:
  "flip_segment_bit example_signature_segment 0 1 = ''xG2XhXMKxzWreSGzzgtQs7eg6pq_qu9qCjA2vKlzZjA''
   \<and> (\<exists>e. verifyJwtToken (example_runtime no_environment)
        (example_options\<lparr>token := Some (example_header_segment @ ''.'' @ example_payload_segment
            @ ''.'' @ flip_segment_bit example_signature_segment 0 1)\<rparr>) example_now = Inl e)
   \<and> verifyJwtToken (example_runtime no_environment)
        (example_options\<lparr>token := Some (example_header_segment @ ''.'' @ example_payload_segment
            @ ''.'' @ flip_segment_bit example_signature_segment 0 1)\<rparr>) example_now
       = Inl SignatureVerificationFailed"
proof -
  let ?rt = "example_runtime no_environment"
  have v: "verifyJwtToken ?rt example_options example_now = Inr (example_header, example_payload)"
    by code_simp
  have t: "resolved_token (resolveJwtInputs ?rt example_options) = EnvString example_token"
    by code_simp
  have sp: "str_split (CHR ''.'') example_token
      = [example_header_segment, example_payload_segment, example_signature_segment]"
    by code_simp
  have d: "base64UrlDecode (flip_segment_bit example_signature_segment 0 1)
      \<noteq> base64UrlDecode example_signature_segment"
    by code_simp
  have f: "flip_segment_bit example_signature_segment 0 1 = ''xG2XhXMKxzWreSGzzgtQs7eg6pq_qu9qCjA2vKlzZjA''"
    by code_simp
  have r: "verifyJwtToken ?rt
        (example_options\<lparr>token := Some (example_header_segment @ ''.'' @ example_payload_segment
            @ ''.'' @ flip_segment_bit example_signature_segment 0 1)\<rparr>) example_now
       = Inl SignatureVerificationFailed"
    by code_simp
  from flipped_signature_rejected[OF v t sp d] f r show ?thesis by blast
qed

theorem flipped_signature_counterexample:
  "verifyJwtToken (example_runtime no_environment) example_options example_now
     = Inr (example_header, example_payload)
   \<and> flip_segment_bit example_signature_segment 42 1 = ''zG2XhXMKxzWreSGzzgtQs7eg6pq_qu9qCjA2vKlzZjC''
   \<and> verifyJwtToken (example_runtime no_environment)
        (example_options\<lparr>token := Some (example_signing_input @ ''.''
            @ flip_segment_bit example_signature_segment 42 1)\<rparr>) example_now
       = Inr (example_header, example_payload)"
  by code_simp

section \<open>Claims about the audience check\<close>

lemma json_strings_member: "x \<in> set (json_strings vs) \<longleftrightarrow> JStr x \<in> set vs"
  by (induction vs rule: json_strings.induct) auto

lemma payload_audience_Some:
  "get_prop payload ''aud'' = Some v \<Longrightarrow>
     payload_audience payload
       = (if truthy (Some v) then (case v of JArr xs \<Rightarrow> xs | _ \<Rightarrow> [v]) else [])"
  by (cases v) (simp_all add: payload_audience_def)

lemma payload_audience_None:
  "get_prop payload ''aud'' = None \<Longrightarrow> payload_audience payload = []"
  by (simp add: payload_audience_def)

lemma audience_of_value:
  "v \<noteq> JStr [] \<Longrightarrow>
     JStr x \<in> set (if truthy (Some v) then (case v of JArr xs \<Rightarrow> xs | _ \<Rightarrow> [v]) else [])
       \<longleftrightarrow> x \<in> set (claimed_audience (Some v))"
  by (cases v) (simp_all add: json_strings_member)

lemma payload_audience_strings:
  assumes "get_prop payload ''aud'' \<noteq> Some (JStr [])"
  shows "JStr x \<in> set (payload_audience payload)
           \<longleftrightarrow> x \<in> set (claimed_audience (get_prop payload ''aud''))"
proof (cases "get_prop payload ''aud''")
  case None
  then show ?thesis by (simp add: payload_audience_None)
next
  case (Some v)
  with assms have "v \<noteq> JStr []" by simp
  from audience_of_value[OF this] show ?thesis
    unfolding payload_audience_Some[OF Some] Some .
qed

lemma overlap_iff:
  "list_ex (\<lambda>x. x \<in> set ys) xs \<longleftrightarrow> set xs \<inter> set ys \<noteq> {}"
  by (auto simp: list_ex_iff)

lemma validateJwtClaims_audience_step:
  assumes "audience options = Some a" "audience_truthy a"
    and "validateJwtClaims payload (options\<lparr>audience := None\<rparr>) now = Inr ()"
  shows "validateJwtClaims payload options now
           = (if list_ex (\<lambda>aud. JStr aud \<in> set (payload_audience payload)) (expected_audience a)
              then Inr () else Inl AudienceMismatch)"
  using assms
  by (auto simp: validateJwtClaims_def Let_def split: if_splits)

text \<open>
  C8 (as amended). With the audience option set to a non-empty string or to an array, and
  the other claim checks passing, the payload's \<^verbatim>\<open>aud\<close> and the expected audience are read
  as sets (a bare string is a one-element set) and the check passes exactly when the sets
  intersect, failing with the audience mismatch otherwise; an \<^verbatim>\<open>aud\<close> that is the empty
  string counts as absent. With \<^verbatim>\<open>aud = ["a","b"]\<close>, the expected audience \<^verbatim>\<open>b\<close> passes and
  \<^verbatim>\<open>c\<close> fails.
\<close>

theorem audience_check:
  assumes "audience options = Some a" "audience_truthy a"
    and "validateJwtClaims payload (options\<lparr>audience := None\<rparr>) now = Inr ()"
  shows "(get_prop payload ''aud'' \<noteq> Some (JStr [])
           \<longrightarrow> validateJwtClaims payload options now
               = (if set (expected_audience a) \<inter> set (claimed_audience (get_prop payload ''aud'')) \<noteq> {}
                  then Inr () else Inl AudienceMismatch))
    \<and> (get_prop payload ''aud'' = Some (JStr [])
           \<longrightarrow> validateJwtClaims payload options now = Inl AudienceMismatch)
    \<and> (get_prop payload ''aud'' = Some (JArr [JStr ''a'', JStr ''b'']) \<and> a = AudString ''b''
           \<longrightarrow> validateJwtClaims payload options now = Inr ())
    \<and> (get_prop payload ''aud'' = Some (JArr [JStr ''a'', JStr ''b'']) \<and> a = AudString ''c''
           \<longrightarrow> validateJwtClaims payload options now = Inl AudienceMismatch)"
proof -
  note step = validateJwtClaims_audience_step[OF assms]
  have general: "get_prop payload ''aud'' \<noteq> Some (JStr [])
           \<longrightarrow> validateJwtClaims payload options now
               = (if set (expected_audience a) \<inter> set (claimed_audience (get_prop payload ''aud'')) \<noteq> {}
                  then Inr () else Inl AudienceMismatch)"
    by (simp add: step payload_audience_strings overlap_iff[symmetric])
  have empty: "get_prop payload ''aud'' = Some (JStr [])
           \<longrightarrow> validateJwtClaims payload options now = Inl AudienceMismatch"
    by (simp add: step payload_audience_Some list_ex_iff)
  have ex1: "get_prop payload ''aud'' = Some (JArr [JStr ''a'', JStr ''b'']) \<and> a = AudString ''b''
           \<longrightarrow> validateJwtClaims payload options now = Inr ()"
    by (simp add: step payload_audience_Some)
  have ex2: "get_prop payload ''aud'' = Some (JArr [JStr ''a'', JStr ''b'']) \<and> a = AudString ''c''
           \<longrightarrow> validateJwtClaims payload options now = Inl AudienceMismatch"
    by (simp add: step payload_audience_Some)
  from general empty ex1 ex2 show ?thesis by blast
qed

theorem audience_check_witness:
  "validateJwtClaims audience_payload (empty_jwt_options\<lparr>audience := Some (AudString ''b'')\<rparr>) example_now
     = Inr ()
   \<and> validateJwtClaims audience_payload (empty_jwt_options\<lparr>audience := Some (AudString ''c'')\<rparr>) example_now
     = Inl AudienceMismatch
   \<and> validateJwtClaims example_payload (empty_jwt_options\<lparr>audience := Some (AudArray [''x'', ''builder''])\<rparr>)
       example_now = Inr ()"
proof -
  have p: "get_prop audience_payload ''aud'' = Some (JArr [JStr ''a'', JStr ''b''])"
    by code_simp
  have other: "\<And>x. validateJwtClaims audience_payload
      (empty_jwt_options\<lparr>audience := Some x, audience := None\<rparr>) example_now = Inr ()"
    by (simp add: validateJwtClaims_def audience_payload_def empty_jwt_options_def Let_def number_claim_def)
  have a: "validateJwtClaims audience_payload (empty_jwt_options\<lparr>audience := Some (AudString ''b'')\<rparr>)
      example_now = Inr ()"
    using audience_check[of "empty_jwt_options\<lparr>audience := Some (AudString ''b'')\<rparr>" "AudString ''b''"
        audience_payload example_now] other p
    by simp
  have b: "validateJwtClaims audience_payload (empty_jwt_options\<lparr>audience := Some (AudString ''c'')\<rparr>)
      example_now = Inl AudienceMismatch"
    using audience_check[of "empty_jwt_options\<lparr>audience := Some (AudString ''c'')\<rparr>" "AudString ''c''"
        audience_payload example_now] other p
    by simp
  have c: "validateJwtClaims example_payload (empty_jwt_options\<lparr>audience := Some (AudArray [''x'', ''builder''])\<rparr>)
       example_now = Inr ()"
    by code_simp
  from a b c show ?thesis by simp
qed

theorem audience_empty_string_counterexample:
  "set (expected_audience (AudArray [[]])) \<inter> set (claimed_audience (Some (JStr []))) \<noteq> {}
   \<and> validateJwtClaims (JObj [(''aud'', JStr [])])
        (empty_jwt_options\<lparr>audience := Some (AudArray [[]])\<rparr>) example_now = Inl AudienceMismatch
   \<and> set (expected_audience (AudString [])) \<inter> set (claimed_audience (Some (JStr ''x''))) = {}
   \<and> validateJwtClaims (JObj [(''aud'', JStr ''x'')])
        (empty_jwt_options\<lparr>audience := Some (AudString [])\<rparr>) example_now = Inr ()"
  by (simp add: validateJwtClaims_def empty_jwt_options_def Let_def number_claim_def payload_audience_def)

end
